theory Spec2Isabelle
  imports Complex_Main "HOL-Library.Multiset"
begin

section \<open>Common modelling conventions\<close>

text \<open>
  A thrown \<^verbatim>\<open>Error\<close> is the left injection of a sum type. Counts and array indices
  are \<^typ>\<open>nat\<close>, integer-valued configuration numbers \<^typ>\<open>int\<close>, and \<^verbatim>\<open>Date\<close>
  objects milliseconds since the epoch (\<^typ>\<open>int\<close>). The numbers of the vector
  utilities are IEEE 754 double precision numbers, modelled below.
\<close>

datatype error =
    DimensionMismatch
  | EmptyVector
  | QueryVectorEmpty
  | TopKNotPositive
  | NotInitialized
  | NoEmbeddingGenerated
  | InvalidVectorElement
  | ProviderError string
  | TypeError

subsection \<open>\<^verbatim>\<open>Array.prototype.slice\<close>\<close>

text \<open>
  A relative index of \<^verbatim>\<open>slice\<close>: a negative index counts from the end, and
  every index is clamped to the array.
\<close>

definition relativeIndex :: "int \<Rightarrow> nat \<Rightarrow> nat" where
  "relativeIndex i n = (if i < 0 then nat (max (int n + i) 0) else min (nat i) n)"

definition slice :: "'a list \<Rightarrow> int \<Rightarrow> int \<Rightarrow> 'a list" where
  "slice xs start end =
     (let k = relativeIndex start (length xs);
          final = relativeIndex end (length xs)
      in take (final - k) (drop k xs))"

text \<open>\<^verbatim>\<open>xs.slice(start)\<close>: the end defaults to the length of the array.\<close>

definition sliceFrom :: "'a list \<Rightarrow> int \<Rightarrow> 'a list" where
  "sliceFrom xs start = slice xs start (int (length xs))"

subsection \<open>\<^verbatim>\<open>Array.prototype.sort\<close> with a comparator\<close>

text \<open>
  The sort of ECMAScript 2019 is stable. It is modelled as an insertion sort that puts
  an element in front of the first element it does not have to follow
  (\<open>cmp x y \<le> 0\<close>); the elements are inserted from the right, so that an element
  stays in front of the later elements it compares equal to.
\<close>

fun insertBy :: "('a \<Rightarrow> 'a \<Rightarrow> real) \<Rightarrow> 'a \<Rightarrow> 'a list \<Rightarrow> 'a list" where
  "insertBy cmp x [] = [x]"
| "insertBy cmp x (y # ys) =
     (if cmp x y \<le> 0 then x # y # ys else y # insertBy cmp x ys)"

definition sortBy :: "('a \<Rightarrow> 'a \<Rightarrow> real) \<Rightarrow> 'a list \<Rightarrow> 'a list" where
  "sortBy cmp xs = foldr (insertBy cmp) xs []"

section \<open>Double precision numbers\<close>

text \<open>
  A JavaScript number is a finite double, an infinity or NaN. A finite double is
  modelled by the real number it denotes; the two zeros of IEEE 754 are one value
  (the vector utilities never divide by a zero, and \<open>>=\<close>, \<open>===\<close> and the sign
  of a difference do not tell them apart).
\<close>

datatype double = Finite real | PosInf | NegInf | NaN

definition pow2 :: "int \<Rightarrow> real" where
  "pow2 k = (if 0 \<le> k then 2 ^ nat k else 1 / 2 ^ nat (- k))"

text \<open>
  Rounding to the nearest double, ties to the even significand. A number of binary
  exponent \<open>e\<close> is rounded to a multiple of \<open>pow2 (e - 52)\<close> (53 bits of
  significand), below the normal range to a multiple of \<open>pow2 (- 1074)\<close>; a result
  that reaches \<open>pow2 1024\<close> overflows to an infinity.
\<close>

definition binaryExponent :: "real \<Rightarrow> int" where
  "binaryExponent r = \<lfloor>log 2 \<bar>r\<bar>\<rfloor>"

definition quantum :: "real \<Rightarrow> int" where
  "quantum r = max (binaryExponent r - 52) (- 1074)"

definition roundHalfEven :: "real \<Rightarrow> int" where
  "roundHalfEven x =
     (let n = \<lfloor>x\<rfloor>; f = x - of_int n
      in if f < 1 / 2 then n else if 1 / 2 < f then n + 1 else if even n then n else n + 1)"

definition fl :: "real \<Rightarrow> double" where
  "fl r =
     (if r = 0 then Finite 0
      else
        let q = quantum r;
            v = of_int (roundHalfEven (r / pow2 q)) * pow2 q
        in if pow2 1024 \<le> \<bar>v\<bar> then (if 0 < r then PosInf else NegInf) else Finite v)"

text \<open>The arithmetic of IEEE 754: the exact result, rounded.\<close>

fun dadd :: "double \<Rightarrow> double \<Rightarrow> double" where
  "dadd NaN y = NaN"
| "dadd x NaN = NaN"
| "dadd (Finite a) (Finite b) = fl (a + b)"
| "dadd PosInf NegInf = NaN"
| "dadd NegInf PosInf = NaN"
| "dadd PosInf y = PosInf"
| "dadd NegInf y = NegInf"
| "dadd (Finite a) y = y"

fun dsub :: "double \<Rightarrow> double \<Rightarrow> double" where
  "dsub NaN y = NaN"
| "dsub x NaN = NaN"
| "dsub (Finite a) (Finite b) = fl (a - b)"
| "dsub PosInf PosInf = NaN"
| "dsub NegInf NegInf = NaN"
| "dsub PosInf y = PosInf"
| "dsub NegInf y = NegInf"
| "dsub (Finite a) PosInf = NegInf"
| "dsub (Finite a) NegInf = PosInf"

fun dmul :: "double \<Rightarrow> double \<Rightarrow> double" where
  "dmul NaN y = NaN"
| "dmul x NaN = NaN"
| "dmul (Finite a) (Finite b) = fl (a * b)"
| "dmul (Finite a) PosInf = (if a = 0 then NaN else if 0 < a then PosInf else NegInf)"
| "dmul (Finite a) NegInf = (if a = 0 then NaN else if 0 < a then NegInf else PosInf)"
| "dmul PosInf (Finite b) = (if b = 0 then NaN else if 0 < b then PosInf else NegInf)"
| "dmul NegInf (Finite b) = (if b = 0 then NaN else if 0 < b then NegInf else PosInf)"
| "dmul PosInf PosInf = PosInf"
| "dmul PosInf NegInf = NegInf"
| "dmul NegInf PosInf = NegInf"
| "dmul NegInf NegInf = PosInf"

text \<open>A zero divisor counts as the positive zero.\<close>

fun ddiv :: "double \<Rightarrow> double \<Rightarrow> double" where
  "ddiv NaN y = NaN"
| "ddiv x NaN = NaN"
| "ddiv (Finite a) (Finite b) =
     (if b = 0 then (if a = 0 then NaN else if 0 < a then PosInf else NegInf)
      else fl (a / b))"
| "ddiv (Finite a) y = Finite 0"
| "ddiv PosInf (Finite b) = (if 0 \<le> b then PosInf else NegInf)"
| "ddiv NegInf (Finite b) = (if 0 \<le> b then NegInf else PosInf)"
| "ddiv x y = NaN"

text \<open>\<^verbatim>\<open>Math.sqrt\<close>: the square root, rounded.\<close>

fun dsqrt :: "double \<Rightarrow> double" where
  "dsqrt (Finite a) = (if a < 0 then NaN else fl (sqrt a))"
| "dsqrt PosInf = PosInf"
| "dsqrt x = NaN"

text \<open>The comparison \<open>x >= y\<close>, false when one of the two is NaN.\<close>

fun dge :: "double \<Rightarrow> double \<Rightarrow> bool" where
  "dge NaN y = False"
| "dge x NaN = False"
| "dge (Finite a) (Finite b) = (b \<le> a)"
| "dge PosInf y = True"
| "dge x NegInf = True"
| "dge x y = False"

text \<open>
  What \<^verbatim>\<open>Array.prototype.sort\<close> makes of the number its comparator returns: NaN
  counts as 0, and of an infinity only the sign matters.
\<close>

fun comparatorValue :: "double \<Rightarrow> real" where
  "comparatorValue (Finite v) = v"
| "comparatorValue PosInf = 1"
| "comparatorValue NegInf = - 1"
| "comparatorValue NaN = 0"

subsection \<open>Notions for the proofs\<close>

text \<open>
  Every finite result of the arithmetic is a multiple of the smallest positive
  double and lies below the overflow threshold.
\<close>

definition onGrid :: "real \<Rightarrow> bool" where
  "onGrid v \<longleftrightarrow> (\<exists>k :: int. v = of_int k * pow2 (- 1074)) \<and> \<bar>v\<bar> < pow2 1024"

fun wellFormed :: "double \<Rightarrow> bool" where
  "wellFormed (Finite v) = onGrid v"
| "wellFormed x = True"

text \<open>The order of the doubles that are not NaN, as an order of real numbers.\<close>

fun rankValue :: "double \<Rightarrow> real" where
  "rankValue (Finite v) = v"
| "rankValue PosInf = pow2 1024"
| "rankValue NegInf = - pow2 1024"
| "rankValue NaN = 0"

section \<open>Vector utilities\<close>

subsection \<open>Data model\<close>

record vector =
  vec_values :: "double list"
  dimensions :: nat

record chunk_source =
  filename :: string
  start_position :: nat
  chunk_length :: nat
  section_label :: "string option"

record embedded_chunk =
  chunk_id :: string
  chunk_text :: string
  embedding :: vector
  source :: chunk_source
  created_at :: int

record similarity_result =
  chunk :: embedded_chunk
  similarity_score :: double
  rank :: nat

subsection \<open>\<^verbatim>\<open>cosineSimilarity\<close>\<close>

text \<open>
  The two loops of the source run over the indices of \<open>vectorA\<close>; the second one
  reads \<open>vectorB\<close> at the same indices. Each \<open>+=\<close> rounds the product and then
  the sum.
\<close>

definition dotProduct :: "double list \<Rightarrow> double list \<Rightarrow> double" where
  "dotProduct a b =
     foldl (\<lambda>acc i. dadd acc (dmul (a ! i) (b ! i))) (Finite 0) [0..<length a]"

definition sumOfSquares :: "nat \<Rightarrow> double list \<Rightarrow> double" where
  "sumOfSquares n v = foldl (\<lambda>acc i. dadd acc (dmul (v ! i) (v ! i))) (Finite 0) [0..<n]"

definition cosineSimilarity :: "double list \<Rightarrow> double list \<Rightarrow> error + double" where
  "cosineSimilarity vectorA vectorB =
     (if length vectorA \<noteq> length vectorB then Inl DimensionMismatch
      else if length vectorA = 0 then Inl EmptyVector
      else
        let dot = dotProduct vectorA vectorB;
            magnitudeA = dsqrt (sumOfSquares (length vectorA) vectorA);
            magnitudeB = dsqrt (sumOfSquares (length vectorA) vectorB)
        in if magnitudeA = Finite 0 \<or> magnitudeB = Finite 0 then Inr (Finite 0)
           else Inr (ddiv dot (dmul magnitudeA magnitudeB)))"

text \<open>
  The notions the specification speaks about, as the doubles compute them: the dot
  product of two vectors and the magnitude of a vector.
\<close>

definition computedDot :: "double list \<Rightarrow> double list \<Rightarrow> double" where
  "computedDot a b = foldl (\<lambda>acc (x, y). dadd acc (dmul x y)) (Finite 0) (zip a b)"

definition computedMagnitude :: "double list \<Rightarrow> double" where
  "computedMagnitude a = dsqrt (foldl (\<lambda>acc x. dadd acc (dmul x x)) (Finite 0) a)"

subsection \<open>\<^verbatim>\<open>findSimilarChunks\<close>\<close>

text \<open>
  The loop over the chunks: a chunk for which \<open>cosineSimilarity\<close> throws is caught,
  reported on the console and skipped; a chunk below the threshold is skipped.
\<close>

definition scoreChunk ::
  "double list \<Rightarrow> double \<Rightarrow> similarity_result list \<Rightarrow> embedded_chunk \<Rightarrow>
     similarity_result list" where
  "scoreChunk queryVector minSimilarity similarities c =
     (case cosineSimilarity queryVector (vec_values (embedding c)) of
        Inl e \<Rightarrow> similarities
      | Inr similarity \<Rightarrow>
          if dge similarity minSimilarity
          then similarities @ [\<lparr>chunk = c, similarity_score = similarity, rank = 0\<rparr>]
          else similarities)"

definition scoreChunks ::
  "double list \<Rightarrow> double \<Rightarrow> embedded_chunk list \<Rightarrow> similarity_result list" where
  "scoreChunks queryVector minSimilarity chunks =
     foldl (scoreChunk queryVector minSimilarity) [] chunks"

text \<open>The identifiers of the chunks reported by \<^verbatim>\<open>console.error\<close> in that loop.\<close>

definition consoleErrors :: "double list \<Rightarrow> embedded_chunk list \<Rightarrow> string list" where
  "consoleErrors queryVector chunks =
     map chunk_id
       (filter (\<lambda>c. isl (cosineSimilarity queryVector (vec_values (embedding c)))) chunks)"

text \<open>The final loop: \<open>topResults[i].rank = i + 1\<close>.\<close>

definition setRanks :: "similarity_result list \<Rightarrow> similarity_result list" where
  "setRanks topResults = map (\<lambda>(i, r). r\<lparr>rank := i + 1\<rparr>) (enumerate 0 topResults)"

text \<open>The comparator \<open>(a, b) => b.similarity_score - a.similarity_score\<close>.\<close>

definition byScoreDescending :: "similarity_result \<Rightarrow> similarity_result \<Rightarrow> real" where
  "byScoreDescending a b = comparatorValue (dsub (similarity_score b) (similarity_score a))"

definition findSimilarChunks ::
  "double list \<Rightarrow> embedded_chunk list \<Rightarrow> int \<Rightarrow> double \<Rightarrow> error + similarity_result list" where
  "findSimilarChunks queryVector chunks topK minSimilarity =
     (if length queryVector = 0 then Inl QueryVectorEmpty
      else if length chunks = 0 then Inr []
      else if topK \<le> 0 then Inl TopKNotPositive
      else
        let similarities = scoreChunks queryVector minSimilarity chunks;
            sorted = sortBy byScoreDescending similarities;
            topResults = slice sorted 0 topK
        in Inr (setRanks topResults))"

text \<open>
  The notions of the specification of the search: the score of a candidate is the
  cosine similarity that the code computes for it, and a candidate qualifies when
  that score is defined and \<open>>=\<close> the threshold.
\<close>

definition scoreOf :: "double list \<Rightarrow> embedded_chunk \<Rightarrow> double" where
  "scoreOf queryVector c =
     (case cosineSimilarity queryVector (vec_values (embedding c)) of
        Inl e \<Rightarrow> NaN | Inr similarity \<Rightarrow> similarity)"

definition qualifies :: "double list \<Rightarrow> double \<Rightarrow> embedded_chunk \<Rightarrow> bool" where
  "qualifies queryVector minSimilarity c =
     (case cosineSimilarity queryVector (vec_values (embedding c)) of
        Inl e \<Rightarrow> False | Inr similarity \<Rightarrow> dge similarity minSimilarity)"

subsection \<open>Example data\<close>

definition exampleChunk :: "string \<Rightarrow> string \<Rightarrow> real list \<Rightarrow> embedded_chunk" where
  "exampleChunk ident file v =
     \<lparr>chunk_id = ident, chunk_text = ident,
      embedding = \<lparr>vec_values = map Finite v, dimensions = length v\<rparr>,
      source = \<lparr>filename = file, start_position = 0, chunk_length = length ident,
                section_label = None\<rparr>,
      created_at = 0\<rparr>"

definition exampleChunks :: "embedded_chunk list" where
  "exampleChunks =
     [exampleChunk ''a'' ''f.md'' [0, 1],
      exampleChunk ''b'' ''f.md'' [1, 0, 0],
      exampleChunk ''c'' ''g.md'' [1, 0]]"

text \<open>The query \<open>[1, 0]\<close>, and two vectors whose squares underflow and overflow.\<close>

definition exampleQuery :: "double list" where
  "exampleQuery = [Finite 1, Finite 0]"


definition hugeVector :: "double list" where
  "hugeVector = [Finite (pow2 600), Finite 0]"

section \<open>Strings and the logger\<close>

text \<open>
  Strings are lists of characters; the character classes of the regular expressions
  of the source are those of ASCII.
\<close>

definition isAlphaNum :: "char \<Rightarrow> bool" where
  "isAlphaNum c =
     (let n = (of_char c :: nat)
      in (48 \<le> n \<and> n \<le> 57) \<or> (65 \<le> n \<and> n \<le> 90) \<or> (97 \<le> n \<and> n \<le> 122))"

definition toLowerChar :: "char \<Rightarrow> char" where
  "toLowerChar c =
     (let n = (of_char c :: nat) in if 65 \<le> n \<and> n \<le> 90 then char_of (n + 32) else c)"

definition toLowerCase :: "string \<Rightarrow> string" where
  "toLowerCase s = map toLowerChar s"

text \<open>The decimal digits of a number, as a template literal prints it.\<close>

fun showDigits :: "nat \<Rightarrow> nat \<Rightarrow> string" where
  "showDigits 0 n = []"
| "showDigits (Suc fuel) n =
     (if n < 10 then [char_of (48 + n)]
      else showDigits fuel (n div 10) @ [char_of (48 + n mod 10)])"

definition showNat :: "nat \<Rightarrow> string" where
  "showNat n = showDigits (Suc n) n"

datatype level = Debug | Info | Warn | Error

type_synonym log_entry = "level \<times> string"

section \<open>The RAG service\<close>

subsection \<open>Data model\<close>

datatype document_type = Markdown | Text | Html | Pdf

record knowledge_document =
  doc_id :: string
  doc_filename :: string
  title :: string
  content :: string
  doc_type :: document_type
  doc_created_at :: int
  doc_updated_at :: int
  file_size :: nat
  tags :: "string list"
  chunked :: bool
  embedded :: bool
  chunk_count :: nat

text \<open>A chunk as the text utilities return it, before it is embedded.\<close>

record text_chunk =
  tc_id :: string
  tc_text :: string
  startPosition :: nat
  tc_length :: nat
  tc_section :: "string option"

text \<open>
  The functions of the text utilities and of the LLM service that the RAG service
  calls. Their code is not part of the model: they are parameters of it. The chunking
  configuration of the service is fixed, so \<open>chunkText\<close> takes the text and the
  file name.
\<close>

record collaborators =
  cleanText :: "string \<Rightarrow> string"
  stripMarkdown :: "string \<Rightarrow> string"
  extractKeyTerms :: "string \<Rightarrow> nat \<Rightarrow> string list"
  extractTitle :: "string \<Rightarrow> string option"
  chunkText :: "string \<Rightarrow> string \<Rightarrow> text_chunk list"
  generateEmbeddings :: "string list \<Rightarrow> error + double list list"

record rag_config =
  minSimilarityScore :: double
  defaultTopK :: int
  cacheEmbeddings :: bool

record rag_service =
  config :: rag_config
  embeddedChunks :: "embedded_chunk list"
  documentsIndex :: "string \<rightharpoonup> knowledge_document"
  isInitialized :: bool
  logged :: "log_entry list"

text \<open>The state of a service after its constructor.\<close>

definition newRAGService :: "rag_config \<Rightarrow> rag_service" where
  "newRAGService cfg =
     \<lparr>config = cfg, embeddedChunks = [], documentsIndex = Map.empty, isInitialized = False,
      logged = [(Info, ''RAG Service initialized'')]\<rparr>"

definition logMessage :: "level \<Rightarrow> string \<Rightarrow> rag_service \<Rightarrow> rag_service" where
  "logMessage l m s = s\<lparr>logged := logged s @ [(l, m)]\<rparr>"

subsection \<open>\<^verbatim>\<open>processDocument\<close>\<close>

definition generateDocumentId :: "string \<Rightarrow> string" where
  "generateDocumentId file =
     toLowerCase (map (\<lambda>c. if isAlphaNum c then c else CHR ''_'') file)"

text \<open>\<open>filename.split('.').pop()\<close>: the part of the name after its last dot.\<close>

definition extension :: "string \<Rightarrow> string" where
  "extension file = rev (takeWhile (\<lambda>c. c \<noteq> CHR ''.'') (rev file))"

definition detectDocumentType :: "string \<Rightarrow> document_type" where
  "detectDocumentType file =
     (let ext = toLowerCase (extension file)
      in if ext = ''md'' \<or> ext = ''markdown'' then Markdown
         else if ext = ''html'' \<or> ext = ''htm'' then Html
         else if ext = ''pdf'' then Pdf
         else Text)"

text \<open>
  One embedded chunk of the loop of \<open>processDocument\<close>. An empty section label is
  falsy in JavaScript, so it is left out like a missing one.
\<close>

definition embedChunk :: "string \<Rightarrow> int \<Rightarrow> text_chunk \<Rightarrow> double list \<Rightarrow> embedded_chunk" where
  "embedChunk file now c e =
     \<lparr>chunk_id = tc_id c, chunk_text = tc_text c,
      embedding = \<lparr>vec_values = e, dimensions = length e\<rparr>,
      source = \<lparr>filename = file, start_position = startPosition c, chunk_length = tc_length c,
                section_label = (case tc_section c of
                                   None \<Rightarrow> None
                                 | Some l \<Rightarrow> if l = [] then None else Some l)\<rparr>,
      created_at = now\<rparr>"

text \<open>
  The loop \<open>for (let i = 0; i < chunks.length; i++)\<close>: each chunk is pushed onto
  \<open>embeddedChunks\<close>. When the embeddings run out, \<open>embedding.length\<close> throws a
  \<^verbatim>\<open>TypeError\<close>, and the chunks pushed so far stay.
\<close>

fun pushEmbeddedChunks ::
  "string \<Rightarrow> int \<Rightarrow> text_chunk list \<Rightarrow> double list list \<Rightarrow> embedded_chunk list \<Rightarrow>
     error option \<times> embedded_chunk list" where
  "pushEmbeddedChunks file now [] es stored = (None, stored)"
| "pushEmbeddedChunks file now (c # cs) [] stored = (Some TypeError, stored)"
| "pushEmbeddedChunks file now (c # cs) (e # es) stored =
     pushEmbeddedChunks file now cs es (stored @ [embedChunk file now c e])"

text \<open>
  \<open>processDocument\<close> returns the state it leaves and the error it throws, if any.
  The caller's optional \<open>metadata\<close> record, which is spread into the metadata of
  the document, is left out of the model.
\<close>

definition processDocument ::
  "collaborators \<Rightarrow> int \<Rightarrow> string \<Rightarrow> string \<Rightarrow> rag_service \<Rightarrow> error option \<times> rag_service" where
  "processDocument deps now file text s =
     (let s1 = logMessage Debug (''Processing document: '' @ file) s;
          cleanedContent = cleanText deps text;
          strippedContent = stripMarkdown deps cleanedContent;
          document =
            \<lparr>doc_id = generateDocumentId file, doc_filename = file,
             title = (case extractTitle deps text of None \<Rightarrow> file
                      | Some t \<Rightarrow> if t = [] then file else t),
             content = cleanedContent, doc_type = detectDocumentType file,
             doc_created_at = now, doc_updated_at = now, file_size = length text,
             tags = extractKeyTerms deps strippedContent 5,
             chunked = False, embedded = False, chunk_count = 0\<rparr>;
          chunks = chunkText deps strippedContent file;
          document1 = document\<lparr>chunked := True, chunk_count := length chunks\<rparr>;
          s2 = logMessage Debug
                 (''Generated '' @ showNat (length chunks) @ '' chunks for '' @ file) s1
      in case generateEmbeddings deps (map tc_text chunks) of
           Inl e \<Rightarrow> (Some e, s2)
         | Inr embeddings \<Rightarrow>
             (case pushEmbeddedChunks file now chunks embeddings (embeddedChunks s2) of
                (Some e, stored) \<Rightarrow> (Some e, s2\<lparr>embeddedChunks := stored\<rparr>)
              | (None, stored) \<Rightarrow>
                  (None,
                   logMessage Debug (''Successfully processed document: '' @ file)
                     (s2\<lparr>embeddedChunks := stored,
                        documentsIndex :=
                          (documentsIndex s2)(file \<mapsto> document1\<lparr>embedded := True\<rparr>)\<rparr>))))"

text \<open>
  \<open>generateChunkId\<close> of the text utilities, which every chunking strategy calls
  with the file name and the index of the chunk in the document, counted from 0:
  the file name without its extension, \<open>_chunk_\<close> and the index padded to four
  digits.
\<close>

definition removeExtension :: "string \<Rightarrow> string" where
  "removeExtension file =
     (let ext = extension file
      in if length ext < length file \<and> ext \<noteq> [] \<and> CHR ''/'' \<notin> set ext
         then take (length file - length ext - 1) file
         else file)"

definition padStart :: "nat \<Rightarrow> char \<Rightarrow> string \<Rightarrow> string" where
  "padStart n c s = replicate (n - length s) c @ s"

definition generateChunkId :: "string \<Rightarrow> nat \<Rightarrow> string" where
  "generateChunkId sourceFilename index =
     removeExtension sourceFilename @ ''_chunk_'' @ padStart 4 CHR ''0'' (showNat index)"

text \<open>
  The chunks that the text utilities make of a document, and the chunks that the
  index holds for a file name.
\<close>

definition documentChunks :: "collaborators \<Rightarrow> string \<Rightarrow> string \<Rightarrow> text_chunk list" where
  "documentChunks deps file text = chunkText deps (stripMarkdown deps (cleanText deps text)) file"

definition storedFor :: "string \<Rightarrow> rag_service \<Rightarrow> embedded_chunk list" where
  "storedFor file s = filter (\<lambda>c. filename (source c) = file) (embeddedChunks s)"

subsection \<open>\<^verbatim>\<open>retrieveContent\<close>\<close>

record date_range =
  range_start :: "int option"
  range_end :: "int option"

record search_filters =
  filenames :: "string list option"
  sections :: "string list option"
  dateRange :: "date_range option"

record search_params =
  top_k :: int
  min_similarity_score :: "double option"
  filters :: "search_filters option"

record rag_result =
  retrieved_chunks :: "similarity_result list"
  chunks_searched :: nat
  search_strategy :: string

text \<open>
  \<open>validateVector\<close> without its optional second argument: the vector must not be
  empty, and none of its elements may be NaN.
\<close>

definition validateVector :: "double list \<Rightarrow> error + bool" where
  "validateVector v =
     (if length v = 0 then Inl EmptyVector
      else if list_ex (\<lambda>x. x = NaN) v then Inl InvalidVectorElement
      else Inr True)"

definition generateQueryEmbedding :: "collaborators \<Rightarrow> string \<Rightarrow> error + double list" where
  "generateQueryEmbedding deps query =
     (case generateEmbeddings deps [cleanText deps query] of
        Inl e \<Rightarrow> Inl e
      | Inr embeddings \<Rightarrow>
          if length embeddings = 0 then Inl NoEmbeddingGenerated
          else (case validateVector (hd embeddings) of
                  Inl e \<Rightarrow> Inl e
                | Inr ok \<Rightarrow> Inr (hd embeddings)))"

text \<open>The predicate of the \<open>filter\<close> call in \<open>applyFilters\<close>.\<close>

definition passesFilters :: "search_filters \<Rightarrow> similarity_result \<Rightarrow> bool" where
  "passesFilters f result =
     (let src = source (chunk result)
      in if (case filenames f of
               None \<Rightarrow> False
             | Some names \<Rightarrow> length names > 0 \<and> filename src \<notin> set names)
         then False
         else if (case sections f of
                    None \<Rightarrow> False
                  | Some labels \<Rightarrow>
                      length labels > 0 \<and>
                      (case section_label src of
                         None \<Rightarrow> True
                       | Some l \<Rightarrow> l = [] \<or> l \<notin> set labels))
         then False
         else (case dateRange f of
                 None \<Rightarrow> True
               | Some r \<Rightarrow>
                   let chunkDate = created_at (chunk result)
                   in if (case range_start r of None \<Rightarrow> False | Some d \<Rightarrow> chunkDate < d)
                      then False
                      else if (case range_end r of None \<Rightarrow> False | Some d \<Rightarrow> chunkDate > d)
                      then False
                      else True))"

definition applyFilters ::
  "similarity_result list \<Rightarrow> search_filters option \<Rightarrow> similarity_result list" where
  "applyFilters chunks fs =
     (case fs of None \<Rightarrow> chunks | Some f \<Rightarrow> filter (passesFilters f) chunks)"

text \<open>
  \<open>min_similarity_score || this.config.minSimilarityScore\<close>: a missing score, the
  score 0 and NaN are falsy.
\<close>

definition effectiveMinScore :: "rag_config \<Rightarrow> double option \<Rightarrow> double" where
  "effectiveMinScore cfg m =
     (case m of None \<Rightarrow> minSimilarityScore cfg
      | Some x \<Rightarrow> if x = Finite 0 \<or> x = NaN then minSimilarityScore cfg else x)"

text \<open>
  The query analysis and the timing of the result are left out of the model; the
  result holds the retrieved chunks and the number of chunks searched.
\<close>

definition retrieveContent ::
  "collaborators \<Rightarrow> string \<Rightarrow> search_params \<Rightarrow> rag_service \<Rightarrow> error + rag_result" where
  "retrieveContent deps query params s =
     (if \<not> isInitialized s then Inl NotInitialized
      else case generateQueryEmbedding deps query of
             Inl e \<Rightarrow> Inl e
           | Inr queryEmbedding \<Rightarrow>
               (case findSimilarChunks queryEmbedding (embeddedChunks s) (top_k params)
                       (effectiveMinScore (config s) (min_similarity_score params)) of
                  Inl e \<Rightarrow> Inl e
                | Inr similarChunks \<Rightarrow>
                    Inr \<lparr>retrieved_chunks = applyFilters similarChunks (filters params),
                         chunks_searched = length (embeddedChunks s),
                         search_strategy = ''cosine_similarity''\<rparr>))"

subsection \<open>\<^verbatim>\<open>loadExistingData\<close>\<close>

text \<open>
  A cache file on the disk: it is absent, or what \<open>readFileSync\<close>,
  \<open>JSON.parse\<close> and the restoring of the dates make of it, which is an exception
  (the file cannot be read, is not JSON or has not the expected shape) or the array
  that was stored.
\<close>

datatype 'a cache_file = Absent | Malformed | Stored 'a

record disk =
  chunksFile :: "embedded_chunk list cache_file"
  documentsFile :: "knowledge_document list cache_file"

definition existsSync :: "'a cache_file \<Rightarrow> bool" where
  "existsSync f = (case f of Absent \<Rightarrow> False | Malformed \<Rightarrow> True | Stored x \<Rightarrow> True)"

datatype io_error = ReadOrParseError

definition readAndParse :: "'a cache_file \<Rightarrow> io_error + 'a" where
  "readAndParse f = (case f of Stored x \<Rightarrow> Inr x | Absent \<Rightarrow> Inl ReadOrParseError
     | Malformed \<Rightarrow> Inl ReadOrParseError)"

definition loadChunks :: "disk \<Rightarrow> rag_service \<Rightarrow> rag_service" where
  "loadChunks d s =
     (if existsSync (chunksFile d)
      then (case readAndParse (chunksFile d) of
              Inr chunks \<Rightarrow>
                logMessage Info (''Loaded '' @ showNat (length chunks) @ '' chunks from cache'')
                  (s\<lparr>embeddedChunks := chunks\<rparr>)
            | Inl e \<Rightarrow>
                (logMessage Warn ''Failed to load cached chunks'' s)\<lparr>embeddedChunks := []\<rparr>)
      else s)"

definition loadDocuments :: "disk \<Rightarrow> rag_service \<Rightarrow> rag_service" where
  "loadDocuments d s =
     (if existsSync (documentsFile d)
      then (case readAndParse (documentsFile d) of
              Inr documents \<Rightarrow>
                logMessage Info
                  (''Loaded '' @ showNat (length (remdups (map doc_filename documents))) @
                   '' documents from cache'')
                  (s\<lparr>documentsIndex :=
                       foldl (\<lambda>m doc. m(doc_filename doc \<mapsto> doc)) Map.empty documents\<rparr>)
            | Inl e \<Rightarrow>
                (logMessage Warn ''Failed to load cached documents'' s)
                  \<lparr>documentsIndex := Map.empty\<rparr>)
      else s)"

text \<open>
  Both \<^verbatim>\<open>try\<close> blocks catch every exception, so the function has no exception of
  its own to throw; its result type keeps the place for one.
\<close>

definition loadExistingData :: "disk \<Rightarrow> rag_service \<Rightarrow> io_error + rag_service" where
  "loadExistingData d s = Inr (loadDocuments d (loadChunks d s))"

definition initialize :: "disk \<Rightarrow> rag_service \<Rightarrow> io_error + rag_service" where
  "initialize d s =
     (case loadExistingData d s of
        Inr s1 \<Rightarrow>
          Inr (logMessage Info ''RAG Service initialization completed''
                 (s1\<lparr>isInitialized := True\<rparr>))
      | Inl e \<Rightarrow> Inl e)"

subsection \<open>Example data\<close>

definition exampleDeps :: collaborators where
  "exampleDeps =
     \<lparr>cleanText = (\<lambda>t. t), stripMarkdown = (\<lambda>t. t), extractKeyTerms = (\<lambda>t n. []),
      extractTitle = (\<lambda>t. None),
      chunkText = (\<lambda>t file. if t = [] then []
         else [\<lparr>tc_id = generateChunkId file 0, tc_text = t, startPosition = 0,
                tc_length = length t, tc_section = None\<rparr>]),
      generateEmbeddings = (\<lambda>ts. Inr (map (\<lambda>t. [Finite 1, Finite 0]) ts))\<rparr>"

definition exampleConfig :: rag_config where
  "exampleConfig =
     \<lparr>minSimilarityScore = Finite (1 / 4), defaultTopK = 5, cacheEmbeddings = True\<rparr>"

text \<open>
  Seven chunks: the first five are as close to the query \<open>[1, 0]\<close> as can be, the
  last two are orthogonal to it; three of them come from the file \<open>a.md\<close>.
\<close>

definition exampleCorpus :: "embedded_chunk list" where
  "exampleCorpus =
     [exampleChunk ''a1'' ''a.md'' [1, 0],
      exampleChunk ''b1'' ''b.md'' [1, 0],
      exampleChunk ''b2'' ''b.md'' [1, 0],
      exampleChunk ''b3'' ''b.md'' [1, 0],
      exampleChunk ''b4'' ''b.md'' [1, 0],
      exampleChunk ''a2'' ''a.md'' [0, 1],
      exampleChunk ''a3'' ''a.md'' [0, 1]]"

definition exampleService :: rag_service where
  "exampleService =
     (newRAGService exampleConfig)\<lparr>embeddedChunks := exampleCorpus, isInitialized := True\<rparr>"

definition exampleParams :: search_params where
  "exampleParams =
     \<lparr>top_k = 5, min_similarity_score = Some (Finite (- 1)),
      filters = Some \<lparr>filenames = Some [''a.md''], sections = None, dateRange = None\<rparr>\<rparr>"

text \<open>The file \<open>a.md\<close> is ingested, and then ingested again with another content.\<close>

definition ingestedOnce :: rag_service where
  "ingestedOnce = snd (processDocument exampleDeps 0 ''a.md'' ''one'' (newRAGService exampleConfig))"

definition ingestedTwice :: rag_service where
  "ingestedTwice = snd (processDocument exampleDeps 1 ''a.md'' ''two'' ingestedOnce)"

definition exampleResult :: rag_result where
  "exampleResult =
     \<lparr>retrieved_chunks =
        [\<lparr>chunk = exampleChunk ''a1'' ''a.md'' [1, 0], similarity_score = Finite 1, rank = 1\<rparr>],
      chunks_searched = 7, search_strategy = ''cosine_similarity''\<rparr>"

section \<open>The plugin service\<close>

subsection \<open>Data model\<close>

record plugin_context =
  context_session_id :: string

record plugin_error =
  code :: string
  error_message :: string

record plugin_result =
  success :: bool
  data :: "string option"
  message :: "string option"
  result_error :: "plugin_error option"
  execution_time_ms :: nat
  plugin_version :: string

text \<open>
  What the promise of \<open>plugin.execute\<close> does in the race with the timer of
  \<open>plugin_timeout_ms\<close>: it resolves or rejects before the timer fires, or the
  execution exceeds the timeout and the timer fires first.
\<close>

datatype execution = Resolves plugin_result | Rejects string | ExceedsTimeout

text \<open>A call of \<open>shouldActivate\<close> returns a truth value or throws.\<close>

record plugin =
  name :: string
  version :: string
  priority :: real
  enabled :: bool
  shouldActivate :: "string \<Rightarrow> plugin_context \<Rightarrow> string + bool"
  execute :: "string \<Rightarrow> plugin_context \<Rightarrow> execution"

datatype execution_mode = Parallel | Sequential

record plugin_system_config =
  system_enabled :: bool
  max_plugins_per_request :: int
  plugin_timeout_ms :: nat
  execution_mode :: execution_mode

text \<open>
  The plugins are held in a \<^verbatim>\<open>Map\<close> from their names, which iterates in the order
  of insertion: the model is the list of the registered plugins in that order.
\<close>

record plugin_service =
  plugins :: "plugin list"
  plugin_config :: plugin_system_config

definition registerPlugin :: "plugin \<Rightarrow> plugin_service \<Rightarrow> plugin_service" where
  "registerPlugin p s =
     (if name p \<in> set (map name (plugins s)) then s
      else s\<lparr>plugins := plugins s @ [p]\<rparr>)"

subsection \<open>\<^verbatim>\<open>findActivatedPlugins\<close>\<close>

text \<open>
  The loop over the registered plugins: a disabled plugin is skipped, and so is a
  plugin whose \<open>shouldActivate\<close> throws (the exception is caught and logged).
\<close>

definition checkActivation ::
  "string \<Rightarrow> plugin_context \<Rightarrow> plugin list \<Rightarrow> plugin \<Rightarrow> plugin list" where
  "checkActivation input ctx activatedPlugins p =
     (if \<not> enabled p then activatedPlugins
      else case shouldActivate p input ctx of
             Inl e \<Rightarrow> activatedPlugins
           | Inr should \<Rightarrow> if should then activatedPlugins @ [p] else activatedPlugins)"

definition findActivatedPlugins ::
  "plugin_service \<Rightarrow> string \<Rightarrow> plugin_context \<Rightarrow> plugin list" where
  "findActivatedPlugins s input ctx =
     (let activatedPlugins = foldl (checkActivation input ctx) [] (plugins s);
          sorted = sortBy (\<lambda>a b. priority b - priority a) activatedPlugins
      in slice sorted 0 (max_plugins_per_request (plugin_config s)))"

text \<open>The plugins that the specification calls selected.\<close>

definition activates :: "string \<Rightarrow> plugin_context \<Rightarrow> plugin \<Rightarrow> bool" where
  "activates input ctx p = (enabled p \<and> shouldActivate p input ctx = Inr True)"

subsection \<open>Executing the plugins\<close>

text \<open>
  \<open>Promise.race([plugin.execute(input, context), this.createTimeoutPromise(plugin.name)])\<close>:
  the value it resolves to, or the message of the error it rejects with.
\<close>

definition createTimeoutPromise :: "plugin_system_config \<Rightarrow> string \<Rightarrow> string" where
  "createTimeoutPromise cfg pluginId =
     ''Plugin '' @ pluginId @ '' execution timed out after '' @
     showNat (plugin_timeout_ms cfg) @ ''ms''"

definition race :: "plugin_system_config \<Rightarrow> plugin \<Rightarrow> execution \<Rightarrow> string + plugin_result" where
  "race cfg p e =
     (case e of
        Resolves r \<Rightarrow> Inr r
      | Rejects m \<Rightarrow> Inl m
      | ExceedsTimeout \<Rightarrow> Inl (createTimeoutPromise cfg (name p)))"

text \<open>The result that the \<^verbatim>\<open>catch\<close> block records.\<close>

definition executionFailed :: "plugin \<Rightarrow> plugin_result" where
  "executionFailed p =
     \<lparr>success = False, data = None, message = Some ''Plugin execution failed'',
      result_error = Some \<lparr>code = ''EXECUTION_ERROR'', error_message = ''Plugin execution failed''\<rparr>,
      execution_time_ms = 0, plugin_version = version p\<rparr>"

definition executePlugin ::
  "plugin_system_config \<Rightarrow> string \<Rightarrow> plugin_context \<Rightarrow> plugin \<Rightarrow> string \<times> plugin_result" where
  "executePlugin cfg input ctx p =
     (case race cfg p (execute p input ctx) of
        Inr result \<Rightarrow> (name p, result)
      | Inl e \<Rightarrow> (name p, executionFailed p))"

definition executePluginsSequential ::
  "plugin_system_config \<Rightarrow> plugin list \<Rightarrow> string \<Rightarrow> plugin_context \<Rightarrow>
     (string \<times> plugin_result) list" where
  "executePluginsSequential cfg ps input ctx =
     foldl (\<lambda>results p. results @ [executePlugin cfg input ctx p]) [] ps"

definition executePluginsParallel ::
  "plugin_system_config \<Rightarrow> plugin list \<Rightarrow> string \<Rightarrow> plugin_context \<Rightarrow>
     (string \<times> plugin_result) list" where
  "executePluginsParallel cfg ps input ctx = map (executePlugin cfg input ctx) ps"

definition executePlugins ::
  "plugin_system_config \<Rightarrow> plugin list \<Rightarrow> string \<Rightarrow> plugin_context \<Rightarrow>
     (string \<times> plugin_result) list" where
  "executePlugins cfg ps input ctx =
     (if execution_mode cfg = Parallel then executePluginsParallel cfg ps input ctx
      else executePluginsSequential cfg ps input ctx)"

record execution_summary =
  total_plugins_activated :: nat
  successful_executions :: nat
  failed_executions :: nat

record dispatch_result =
  plugins_executed :: "(string \<times> plugin_result) list"
  summary_of_execution :: execution_summary

definition nothingExecuted :: dispatch_result where
  "nothingExecuted =
     \<lparr>plugins_executed = [],
      summary_of_execution =
        \<lparr>total_plugins_activated = 0, successful_executions = 0, failed_executions = 0\<rparr>\<rparr>"

text \<open>
  \<open>processInput\<close>, the call that dispatches. Nothing in its \<^verbatim>\<open>try\<close> block
  throws, so the result of its \<^verbatim>\<open>catch\<close> block does not occur; the times of the
  summary are left out.
\<close>

definition processInput :: "plugin_service \<Rightarrow> string \<Rightarrow> plugin_context \<Rightarrow> dispatch_result" where
  "processInput s input ctx =
     (if \<not> system_enabled (plugin_config s) then nothingExecuted
      else
        let activatedPlugins = findActivatedPlugins s input ctx
        in if length activatedPlugins = 0 then nothingExecuted
           else
             let pluginResults = executePlugins (plugin_config s) activatedPlugins input ctx;
                 successfulExecutions = length (filter (\<lambda>r. success (snd r)) pluginResults)
             in \<lparr>plugins_executed = pluginResults,
                 summary_of_execution =
                   \<lparr>total_plugins_activated = length activatedPlugins,
                    successful_executions = successfulExecutions,
                    failed_executions = length pluginResults - successfulExecutions\<rparr>\<rparr>)"

text \<open>The error codes of a list of results.\<close>

definition errorCodes :: "(string \<times> plugin_result) list \<Rightarrow> (string \<times> string option) list" where
  "errorCodes results = map (\<lambda>(pluginId, r). (pluginId, map_option code (result_error r))) results"

subsection \<open>Example data\<close>

definition examplePlugin :: "string \<Rightarrow> real \<Rightarrow> bool \<Rightarrow> (string + bool) \<Rightarrow> execution \<Rightarrow> plugin" where
  "examplePlugin n p e a x =
     \<lparr>name = n, version = ''1.0.0'', priority = p, enabled = e,
      shouldActivate = (\<lambda>input ctx. a), execute = (\<lambda>input ctx. x)\<rparr>"

definition okResult :: plugin_result where
  "okResult =
     \<lparr>success = True, data = Some ''42'', message = None, result_error = None,
      execution_time_ms = 1, plugin_version = ''1.0.0''\<rparr>"

definition slowPlugin :: plugin where
  "slowPlugin = examplePlugin ''slow'' 1 True (Inr True) ExceedsTimeout"

definition failingPlugin :: plugin where
  "failingPlugin = examplePlugin ''failing'' 1 True (Inr True) (Rejects ''boom'')"

definition exampleSystemConfig :: plugin_system_config where
  "exampleSystemConfig =
     \<lparr>system_enabled = True, max_plugins_per_request = 2, plugin_timeout_ms = 30000,
      execution_mode = Sequential\<rparr>"

definition exampleContext :: plugin_context where
  "exampleContext = \<lparr>context_session_id = ''s1''\<rparr>"

text \<open>
  Five registered plugins: one disabled, one that does not activate, and three that
  activate, two of them with the same priority.
\<close>

definition examplePluginService :: plugin_service where
  "examplePluginService =
     \<lparr>plugins =
        [examplePlugin ''low'' 1 True (Inr True) (Resolves okResult),
         examplePlugin ''off'' 9 False (Inr True) (Resolves okResult),
         examplePlugin ''first'' 5 True (Inr True) (Resolves okResult),
         examplePlugin ''quiet'' 7 True (Inr False) (Resolves okResult),
         examplePlugin ''second'' 5 True (Inr True) ExceedsTimeout],
      plugin_config = exampleSystemConfig\<rparr>"

section \<open>The memory service\<close>

subsection \<open>Data model\<close>

datatype role = User | Assistant | System

text \<open>The optional metadata of a message is left out of the model.\<close>

record conversation_message =
  message_id :: string
  role :: role
  message_content :: string
  timestamp :: int

record conversation_session =
  session_id :: string
  messages :: "conversation_message list"
  session_created_at :: int
  session_updated_at :: int

record conversation_summary =
  summary_session_id :: string
  summary :: string
  message_count :: nat
  topics :: "string list"
  last_message_at :: int

record memory_config =
  maxMessagesPerSession :: int
  summaryThreshold :: int
  sessionTTL :: int
  persistSessions :: bool

record memory_service =
  memory_config :: memory_config
  sessions :: "string \<rightharpoonup> conversation_session"
  sessionSummaries :: "string \<rightharpoonup> conversation_summary"
  memory_log :: "log_entry list"

definition memoryLog :: "level \<Rightarrow> string \<Rightarrow> memory_service \<Rightarrow> memory_service" where
  "memoryLog l m s = s\<lparr>memory_log := memory_log s @ [(l, m)]\<rparr>"

definition newMemoryService :: "memory_config \<Rightarrow> memory_service" where
  "newMemoryService cfg =
     \<lparr>memory_config = cfg, sessions = Map.empty, sessionSummaries = Map.empty,
      memory_log = [(Info, ''Memory Service initialized'')]\<rparr>"

subsection \<open>Summaries\<close>

definition createSimpleSummary :: "conversation_message list \<Rightarrow> string" where
  "createSimpleSummary ms =
     (if length ms = 0 then ''No previous conversation.''
      else
        let userMessages = length (filter (\<lambda>m. role m = User) ms);
            assistantMessages = length (filter (\<lambda>m. role m = Assistant) ms)
        in ''Previous conversation included '' @ showNat userMessages @
           '' user messages and '' @ showNat assistantMessages @
           '' assistant responses covering various topics.'')"

text \<open>The classes \<open>\w\<close> and \<open>\s\<close> of the regular expressions.\<close>

definition isWordChar :: "char \<Rightarrow> bool" where
  "isWordChar c = (isAlphaNum c \<or> c = CHR ''_'')"

definition isSpace :: "char \<Rightarrow> bool" where
  "isSpace c = (let n = (of_char c :: nat) in n = 32 \<or> (9 \<le> n \<and> n \<le> 13))"

text \<open>
  \<open>split(/\s+/)\<close>, without the empty strings that it returns at the ends of a
  string (the filter on the length of the words drops them anyway).
\<close>

fun splitWords :: "string \<Rightarrow> string \<Rightarrow> string list" where
  "splitWords word [] = (if word = [] then [] else [word])"
| "splitWords word (c # cs) =
     (if isSpace c then (if word = [] then splitWords [] cs else word # splitWords [] cs)
      else splitWords (word @ [c]) cs)"

definition wordsOf :: "string \<Rightarrow> string list" where
  "wordsOf text =
     filter (\<lambda>word. length word > 3)
       (splitWords []
          (map (\<lambda>c. if isWordChar c \<or> isSpace c then c else CHR '' '') (toLowerCase text)))"

text \<open>A \<^verbatim>\<open>Set\<close> keeps its elements in the order of their first insertion.\<close>

definition addTopic :: "string list \<Rightarrow> string \<Rightarrow> string list" where
  "addTopic ts word = (if word \<in> set ts then ts else ts @ [word])"

definition extractTopics :: "conversation_message list \<Rightarrow> string list" where
  "extractTopics ms =
     slice
       (foldl (\<lambda>ts m. if role m = User then foldl addTopic ts (wordsOf (message_content m)) else ts)
          [] ms)
       0 5"

definition updateSessionSummary ::
  "string \<Rightarrow> string \<Rightarrow> string list \<Rightarrow> memory_service \<Rightarrow> memory_service" where
  "updateSessionSummary sessionId text ts s =
     (case sessions s sessionId of
        None \<Rightarrow>
          memoryLog Warn
            (''Attempted to update summary for non-existent session: '' @ sessionId) s
      | Some session \<Rightarrow>
          memoryLog Debug (''Updated summary for session '' @ sessionId)
            (s\<lparr>sessionSummaries := (sessionSummaries s)(sessionId \<mapsto>
                  \<lparr>summary_session_id = sessionId, summary = text,
                   message_count = length (messages session), topics = ts,
                   last_message_at = session_updated_at session\<rparr>)\<rparr>))"

subsection \<open>\<^verbatim>\<open>manageSessionSize\<close> and \<^verbatim>\<open>addMessage\<close>\<close>

text \<open>
  The session object that \<open>manageSessionSize\<close> gets is the one that the map of the
  sessions holds under \<open>key\<close>: the function changes that object, and it updates
  the summary of the session that the object names.
\<close>

definition manageSessionSize :: "string \<Rightarrow> memory_service \<Rightarrow> memory_service" where
  "manageSessionSize key s =
     (case sessions s key of
        None \<Rightarrow> s
      | Some session \<Rightarrow>
          if int (length (messages session)) > maxMessagesPerSession (memory_config s)
          then
            let messagesToSummarize =
                  slice (messages session) 0 (- summaryThreshold (memory_config s));
                text = createSimpleSummary messagesToSummarize;
                ts = extractTopics messagesToSummarize;
                s1 = updateSessionSummary (session_id session) text ts s;
                trimmed = session\<lparr>messages :=
                  sliceFrom (messages session) (- summaryThreshold (memory_config s))\<rparr>
            in memoryLog Debug (''Trimmed session '' @ session_id session)
                 (s1\<lparr>sessions := (sessions s1)(key \<mapsto> trimmed)\<rparr>)
          else s)"

definition createNewSession :: "string \<Rightarrow> int \<Rightarrow> conversation_session" where
  "createNewSession sessionId now =
     \<lparr>session_id = sessionId, messages = [], session_created_at = now,
      session_updated_at = now\<rparr>"

text \<open>
  \<open>addMessage\<close>, with the generated identifier of the message and the time of the
  call as arguments. It returns the message and the state it leaves.
\<close>

definition addMessage ::
  "string \<Rightarrow> role \<Rightarrow> string \<Rightarrow> string \<Rightarrow> int \<Rightarrow> memory_service \<Rightarrow>
     conversation_message \<times> memory_service" where
  "addMessage sessionId r text messageId now s =
     (let msg = \<lparr>message_id = messageId, role = r, message_content = text, timestamp = now\<rparr>;
          (session, s1) =
            (case sessions s sessionId of
               Some existing \<Rightarrow> (existing, s)
             | None \<Rightarrow>
                 (createNewSession sessionId now,
                  memoryLog Debug (''Created new session: '' @ sessionId)
                    (s\<lparr>sessions := (sessions s)(sessionId \<mapsto> createNewSession sessionId now)\<rparr>)));
          pushed = session\<lparr>messages := messages session @ [msg], session_updated_at := now\<rparr>;
          s2 = s1\<lparr>sessions := (sessions s1)(sessionId \<mapsto> pushed)\<rparr>;
          s3 = manageSessionSize sessionId s2
      in (msg, memoryLog Debug (''Added message to session '' @ sessionId) s3))"

text \<open>
  The live messages of a session, and the number of compactions that the log
  records for it.
\<close>

definition liveMessages :: "memory_service \<Rightarrow> string \<Rightarrow> conversation_message list" where
  "liveMessages s sessionId =
     (case sessions s sessionId of None \<Rightarrow> [] | Some session \<Rightarrow> messages session)"

definition compactions :: "memory_service \<Rightarrow> string \<Rightarrow> nat" where
  "compactions s sessionId =
     length (filter (\<lambda>e. e = (Debug, ''Trimmed session '' @ sessionId)) (memory_log s))"

subsection \<open>Example data\<close>

definition exampleMemoryConfig :: memory_config where
  "exampleMemoryConfig =
     \<lparr>maxMessagesPerSession = 3, summaryThreshold = 2, sessionTTL = 86400000,
      persistSessions = False\<rparr>"

definition threeMessages :: memory_service where
  "threeMessages =
     snd (addMessage ''s1'' User ''third question'' ''m3'' 3
       (snd (addMessage ''s1'' Assistant ''an answer'' ''m2'' 2
         (snd (addMessage ''s1'' User ''first question'' ''m1'' 1
           (newMemoryService exampleMemoryConfig))))))"

definition fourthMessage :: conversation_message where
  "fourthMessage =
     \<lparr>message_id = ''m4'', role = Assistant, message_content = ''another answer'', timestamp = 4\<rparr>"

definition fourMessages :: memory_service where
  "fourMessages = snd (addMessage ''s1'' Assistant ''another answer'' ''m4'' 4 threeMessages)"

text \<open>
  The configuration that \<^verbatim>\<open>MemoryService.fromConfig\<close> makes of
  \<open>max_conversation_history = 1\<close>: the threshold is \<open>Math.floor(1 * 0.7)\<close>,
  which is 0. Three messages are added to a session of a new service.
\<close>

definition smallMemoryConfig :: memory_config where
  "smallMemoryConfig =
     \<lparr>maxMessagesPerSession = 1, summaryThreshold = 0, sessionTTL = 86400000,
      persistSessions = False\<rparr>"

definition firstAdded :: memory_service where
  "firstAdded =
     snd (addMessage ''s1'' User ''first question'' ''m1'' 1 (newMemoryService smallMemoryConfig))"

definition secondAdded :: memory_service where
  "secondAdded = snd (addMessage ''s1'' Assistant ''an answer'' ''m2'' 2 firstAdded)"

definition thirdAdded :: memory_service where
  "thirdAdded = snd (addMessage ''s1'' User ''third question'' ''m3'' 3 secondAdded)"

section \<open>Properties of the double precision numbers\<close>

subsection \<open>Powers of two and rounding\<close>

lemma pow2_powr: "pow2 k = 2 powr (of_int k)"
  by (simp add: pow2_def powr_realpow [symmetric] powr_minus divide_inverse)

lemma pow2_pos [simp]: "0 < pow2 k"
  by (simp add: pow2_powr)

lemma pow2_nonzero [simp]: "pow2 k \<noteq> 0"
  using pow2_pos [of k] by linarith

lemma pow2_nonneg [simp]: "0 \<le> pow2 k"
  using pow2_pos [of k] by linarith

lemma pow2_not_le_zero [simp]: "\<not> pow2 k \<le> 0"
  using pow2_pos [of k] by linarith

lemma pow2_add: "pow2 (j + k) = pow2 j * pow2 k"
  by (simp add: pow2_powr powr_add)

lemma pow2_mono: "j \<le> k \<Longrightarrow> pow2 j \<le> pow2 k"
  by (simp add: pow2_powr)

lemma pow2_nonneg_int: "0 \<le> k \<Longrightarrow> pow2 k = of_int (2 ^ nat k)"
  by (simp add: pow2_def)

lemma binaryExponent_bounds:
  assumes "r \<noteq> 0"
  shows "pow2 (binaryExponent r) \<le> \<bar>r\<bar>" and "\<bar>r\<bar> < pow2 (binaryExponent r + 1)"
proof -
  have pos: "0 < \<bar>r\<bar>" using assms by simp
  have "of_int \<lfloor>log 2 \<bar>r\<bar>\<rfloor> \<le> log 2 \<bar>r\<bar>" by simp
  then have "2 powr (of_int \<lfloor>log 2 \<bar>r\<bar>\<rfloor>) \<le> \<bar>r\<bar>"
    using le_log_iff [of 2 "\<bar>r\<bar>" "of_int \<lfloor>log 2 \<bar>r\<bar>\<rfloor>"] pos by simp
  then show "pow2 (binaryExponent r) \<le> \<bar>r\<bar>"
    by (simp add: pow2_powr binaryExponent_def)
  have "log 2 \<bar>r\<bar> < of_int (\<lfloor>log 2 \<bar>r\<bar>\<rfloor> + 1)" by linarith
  then have "\<bar>r\<bar> < 2 powr (of_int (\<lfloor>log 2 \<bar>r\<bar>\<rfloor> + 1))"
    using log_less_iff [of 2 "\<bar>r\<bar>" "of_int (\<lfloor>log 2 \<bar>r\<bar>\<rfloor> + 1)"] pos by simp
  then show "\<bar>r\<bar> < pow2 (binaryExponent r + 1)"
    by (simp add: pow2_powr binaryExponent_def)
qed

lemma binaryExponent_eqI:
  assumes "pow2 e \<le> \<bar>r\<bar>" "\<bar>r\<bar> < pow2 (e + 1)"
  shows "binaryExponent r = e"
proof -
  have pos: "0 < \<bar>r\<bar>" using assms(1) pow2_pos [of e] by linarith
  have "of_int e \<le> log 2 \<bar>r\<bar>"
    using assms(1) le_log_iff [of 2 "\<bar>r\<bar>" "of_int e"] pos by (simp add: pow2_powr)
  moreover have "log 2 \<bar>r\<bar> < of_int (e + 1)"
    using assms(2) log_less_iff [of 2 "\<bar>r\<bar>" "of_int (e + 1)"] pos by (simp add: pow2_powr)
  ultimately show ?thesis
    unfolding binaryExponent_def by (simp add: floor_eq_iff)
qed

lemma roundHalfEven_of_int [simp]: "roundHalfEven (of_int n) = n"
  by (simp add: roundHalfEven_def)

lemma roundHalfEven_ge_one: "1 \<le> x \<Longrightarrow> 1 \<le> roundHalfEven x"
  unfolding roundHalfEven_def Let_def by (auto; linarith)

lemma roundHalfEven_le_minus_one: "x \<le> - 1 \<Longrightarrow> roundHalfEven x \<le> - 1"
  unfolding roundHalfEven_def Let_def
  by (auto; linarith)


lemma pow2_strict_mono_rev: "pow2 j < pow2 k \<Longrightarrow> j < k"
  by (simp add: pow2_powr)

lemma pow2_diff: "pow2 (j - k) = pow2 j / pow2 k"
  by (simp add: pow2_powr powr_diff)

lemma quantum_ge: "- 1074 \<le> quantum r"
  by (simp add: quantum_def)

lemma fl_zero [simp]: "fl 0 = Finite 0"
  by (simp add: fl_def)

lemma scaled_ge_one:
  assumes "pow2 (- 1074) \<le> \<bar>r\<bar>"
  shows "1 \<le> \<bar>r\<bar> / pow2 (quantum r)"
proof -
  have r: "r \<noteq> 0" using assms pow2_pos [of "- 1074"] by auto
  show ?thesis
  proof (cases "quantum r = - 1074")
    case True
    then show ?thesis using assms by simp
  next
    case False
    then have q: "quantum r = binaryExponent r - 52"
      by (simp add: quantum_def max_def split: if_splits)
    have "pow2 (binaryExponent r - 52) \<le> pow2 (binaryExponent r)"
      by (rule pow2_mono) simp
    also have "\<dots> \<le> \<bar>r\<bar>"
      by (rule binaryExponent_bounds (1) [OF r])
    finally show ?thesis by (simp add: q)
  qed
qed

lemma fl_pos:
  assumes "pow2 (- 1074) \<le> r"
  shows "fl r = PosInf \<or> (\<exists>v. fl r = Finite v \<and> 0 < v)"
proof -
  have r: "0 < r" using assms pow2_pos [of "- 1074"] by linarith
  have "1 \<le> \<bar>r\<bar> / pow2 (quantum r)"
    using assms r by (intro scaled_ge_one) simp
  then have "1 \<le> r / pow2 (quantum r)" using r by simp
  then have "1 \<le> roundHalfEven (r / pow2 (quantum r))"
    by (rule roundHalfEven_ge_one)
  then have "0 < of_int (roundHalfEven (r / pow2 (quantum r))) * pow2 (quantum r)"
    by simp
  then show ?thesis
    using r by (simp add: fl_def Let_def)
qed

lemma fl_neg:
  assumes "r \<le> - pow2 (- 1074)"
  shows "fl r = NegInf \<or> (\<exists>v. fl r = Finite v \<and> v < 0)"
proof -
  have r: "r < 0" using assms pow2_pos [of "- 1074"] by linarith
  have "1 \<le> \<bar>r\<bar> / pow2 (quantum r)"
    using assms r by (intro scaled_ge_one) simp
  then have "r / pow2 (quantum r) \<le> - 1" using r by simp
  then have "roundHalfEven (r / pow2 (quantum r)) \<le> - 1"
    by (rule roundHalfEven_le_minus_one)
  then have "of_int (roundHalfEven (r / pow2 (quantum r))) * pow2 (quantum r) < 0"
    by (simp add: mult_less_0_iff)
  then show ?thesis
    using r by (simp add: fl_def Let_def)
qed

lemma fl_onGrid:
  assumes "fl r = Finite v"
  shows "onGrid v"
proof (cases "r = 0")
  case True
  with assms have "v = 0" by simp
  then show ?thesis by (auto simp: onGrid_def intro: exI [of _ 0])
next
  case False
  let ?q = "quantum r"
  let ?n = "roundHalfEven (r / pow2 ?q)"
  from assms False have v: "v = of_int ?n * pow2 ?q" and small: "\<bar>v\<bar> < pow2 1024"
    by (auto simp: fl_def Let_def split: if_splits)
  have "pow2 ?q = pow2 (?q + 1074) * pow2 (- 1074)"
    using pow2_add [of "?q + 1074" "- 1074"] by simp
  also have "pow2 (?q + 1074) = of_int (2 ^ nat (?q + 1074))"
    using quantum_ge [of r] by (intro pow2_nonneg_int) simp
  finally have "v = of_int (?n * 2 ^ nat (?q + 1074)) * pow2 (- 1074)"
    by (simp add: v)
  with small show ?thesis
    unfolding onGrid_def by blast
qed

lemma fl_exact:
  assumes n: "\<bar>n\<bar> < 2 ^ 53" and q: "- 1074 \<le> q"
    and small: "\<bar>of_int n * pow2 q\<bar> < pow2 1024"
  shows "fl (of_int n * pow2 q) = Finite (of_int n * pow2 q)"
proof (cases "n = 0")
  case True
  then show ?thesis by simp
next
  case False
  let ?r = "of_int n * pow2 q"
  have r: "?r \<noteq> 0" using False by simp
  have "\<bar>?r\<bar> = \<bar>of_int n\<bar> * pow2 q"
    by (simp add: abs_mult)
  also have "\<dots> < 2 ^ 53 * pow2 q"
  proof -
    have "\<bar>real_of_int n\<bar> < 2 ^ 53"
      using n by (metis of_int_abs of_int_less_numeral_power_cancel_iff)
    then show ?thesis by simp
  qed
  also have "\<dots> = pow2 (53 + q)"
    using pow2_add [of 53 q] by (simp add: pow2_def)
  finally have "pow2 (binaryExponent ?r) < pow2 (53 + q)"
    using binaryExponent_bounds (1) [OF r] by linarith
  then have "binaryExponent ?r < 53 + q"
    by (rule pow2_strict_mono_rev)
  then have le: "quantum ?r \<le> q"
    using q by (simp add: quantum_def)
  have "?r / pow2 (quantum ?r) = of_int n * pow2 (q - quantum ?r)"
    by (simp add: pow2_diff)
  also have "pow2 (q - quantum ?r) = of_int (2 ^ nat (q - quantum ?r))"
    using le by (intro pow2_nonneg_int) simp
  finally have scaled: "?r / pow2 (quantum ?r) = of_int (n * 2 ^ nat (q - quantum ?r))"
    by simp
  have "of_int (roundHalfEven (?r / pow2 (quantum ?r))) * pow2 (quantum ?r) =
      ?r / pow2 (quantum ?r) * pow2 (quantum ?r)"
    unfolding scaled roundHalfEven_of_int ..
  also have "\<dots> = ?r" by simp
  finally show ?thesis
    using r small unfolding fl_def Let_def by simp
qed


lemma fl_one: "fl 1 = Finite 1"
  using fl_exact [of 1 0] by (simp add: pow2_def)

lemma pow2_strict_mono: "j < k \<Longrightarrow> pow2 j < pow2 k"
  by (simp add: pow2_powr)

lemma roundHalfEven_ge_floor: "\<lfloor>x\<rfloor> \<le> roundHalfEven x"
  by (simp add: roundHalfEven_def Let_def)

lemma fl_overflow:
  assumes "pow2 1024 \<le> r"
  shows "fl r = PosInf"
proof -
  have r: "0 < r" using assms pow2_pos [of 1024] by linarith
  then have r0: "r \<noteq> 0" by simp
  let ?e = "binaryExponent r"
  have "pow2 1024 < pow2 (?e + 1)"
    using assms binaryExponent_bounds (2) [OF r0] r by simp
  then have e: "1024 \<le> ?e"
    using pow2_strict_mono_rev [of 1024 "?e + 1"] by simp
  then have q: "quantum r = ?e - 52"
    by (simp add: quantum_def)
  have "pow2 52 = pow2 ?e / pow2 (?e - 52)"
    using pow2_diff [of ?e "?e - 52"] by simp
  also have "\<dots> \<le> r / pow2 (?e - 52)"
    using binaryExponent_bounds (1) [OF r0] r by (intro divide_right_mono) simp_all
  finally have "of_int (2 ^ 52) \<le> r / pow2 (quantum r)"
    by (simp add: q pow2_def)
  then have "2 ^ 52 \<le> \<lfloor>r / pow2 (quantum r)\<rfloor>"
    by (simp only: le_floor_iff)
  then have "2 ^ 52 \<le> roundHalfEven (r / pow2 (quantum r))"
    using roundHalfEven_ge_floor [of "r / pow2 (quantum r)"] by linarith
  then have "pow2 52 \<le> of_int (roundHalfEven (r / pow2 (quantum r)))"
    by (simp add: pow2_def)
  then have "pow2 52 * pow2 (?e - 52) \<le>
      of_int (roundHalfEven (r / pow2 (quantum r))) * pow2 (quantum r)"
    unfolding q by (intro mult_right_mono) simp_all
  moreover have "pow2 52 * pow2 (?e - 52) = pow2 ?e"
    using pow2_add [of 52 "?e - 52"] by simp
  moreover have "pow2 1024 \<le> pow2 ?e"
    using e by (rule pow2_mono)
  ultimately have "pow2 1024 \<le>
      \<bar>of_int (roundHalfEven (r / pow2 (quantum r))) * pow2 (quantum r)\<bar>"
    by linarith
  then show ?thesis
    using r by (simp add: fl_def Let_def)
qed

lemma roundHalfEven_eqI:
  "of_int n - 1 / 2 < x \<Longrightarrow> x < of_int n + 1 / 2 \<Longrightarrow> roundHalfEven x = n"
  unfolding roundHalfEven_def Let_def
  by (auto; linarith)

lemma fl_eval:
  assumes "pow2 e \<le> \<bar>r\<bar>" "\<bar>r\<bar> < pow2 (e + 1)"
    and "q = max (e - 52) (- 1074)"
    and "of_int n - 1 / 2 < r / pow2 q" "r / pow2 q < of_int n + 1 / 2"
    and "\<bar>of_int n * pow2 q\<bar> < pow2 1024"
  shows "fl r = Finite (of_int n * pow2 q)"
proof -
  have r: "r \<noteq> 0" using assms(1) pow2_pos [of e] by auto
  have q: "quantum r = q"
    using binaryExponent_eqI [OF assms(1,2)] assms(3) by (simp add: quantum_def)
  have "roundHalfEven (r / pow2 q) = n"
    using assms(4,5) by (rule roundHalfEven_eqI)
  then show ?thesis
    using r assms(6) by (simp add: fl_def Let_def q)
qed

lemma sqrt2_rounded: "fl (sqrt 2) = Finite (6369051672525773 * pow2 (- 52))"
proof -
  have lo: "6369051672525773 - 1 / 2 < sqrt 2 * 2 ^ 52"
  proof -
    have "(6369051672525773 - 1 / 2) / 2 ^ 52 < sqrt 2"
      by (rule real_less_rsqrt) (simp add: power2_eq_square)
    then show ?thesis by (simp add: field_simps)
  qed
  have hi: "sqrt 2 * 2 ^ 52 < 6369051672525773 + 1 / 2"
  proof -
    have "sqrt 2 < (6369051672525773 + 1 / 2) / 2 ^ 52"
      by (rule real_less_lsqrt) (simp_all add: power2_eq_square)
    then show ?thesis by (simp add: field_simps)
  qed
  have one: "1 \<le> sqrt 2" by simp
  have two: "sqrt 2 < 2"
    by (rule real_less_lsqrt) simp_all
  show ?thesis
    using fl_eval [of 0 "sqrt 2" "- 52" 6369051672525773] lo hi one two
    by (simp add: pow2_def)
qed

subsection \<open>The sign of a difference\<close>

lemma wellFormed_fl [simp]: "wellFormed (fl r)"
  by (cases "fl r") (simp_all add: fl_onGrid)

lemma onGrid_zero [simp]: "onGrid 0"
  by (auto simp: onGrid_def intro: exI [of _ 0])

lemma wellFormed_ddiv [simp]: "wellFormed (ddiv x y)"
  by (cases x; cases y) simp_all

lemma grid_difference:
  assumes "onGrid a" "onGrid b" "a < b"
  shows "pow2 (- 1074) \<le> b - a"
proof -
  from assms obtain j k :: int where
    a: "a = of_int j * pow2 (- 1074)" and b: "b = of_int k * pow2 (- 1074)"
    unfolding onGrid_def by blast
  from assms(3) have "of_int j * pow2 (- 1074) < of_int k * pow2 (- 1074)"
    by (simp only: a b)
  then have "j < k" by simp
  then have "1 \<le> real_of_int (k - j)" by simp
  then have "1 * pow2 (- 1074) \<le> real_of_int (k - j) * pow2 (- 1074)"
    by (intro mult_right_mono) simp_all
  then show ?thesis by (simp add: a b algebra_simps)
qed

lemma comparator_finite:
  assumes "onGrid a" "onGrid b"
  shows "comparatorValue (fl (b - a)) \<le> 0 \<longleftrightarrow> b \<le> a"
proof -
  consider "a < b" | "a = b" | "b < a" by linarith
  then show ?thesis
  proof cases
    case 1
    then have "fl (b - a) = PosInf \<or> (\<exists>v. fl (b - a) = Finite v \<and> 0 < v)"
      using grid_difference [OF assms 1] by (intro fl_pos)
    with 1 show ?thesis by auto
  next
    case 2
    then show ?thesis by simp
  next
    case 3
    then have "b - a \<le> - pow2 (- 1074)"
      using grid_difference [OF assms(2,1) 3] by linarith
    then have "fl (b - a) = NegInf \<or> (\<exists>v. fl (b - a) = Finite v \<and> v < 0)"
      by (rule fl_neg)
    with 3 show ?thesis by auto
  qed
qed

lemma comparator_sign:
  assumes "wellFormed x" "wellFormed y" "x \<noteq> NaN" "y \<noteq> NaN"
  shows "comparatorValue (dsub y x) \<le> 0 \<longleftrightarrow> rankValue y \<le> rankValue x"
proof (cases x; cases y)
  fix a b
  assume "x = Finite a" "y = Finite b"
  with assms show ?thesis by (simp add: comparator_finite)
qed (use assms in \<open>auto simp: onGrid_def\<close>)

lemma dge_rankValue:
  assumes "wellFormed x" "wellFormed y" "x \<noteq> NaN" "y \<noteq> NaN"
  shows "dge x y \<longleftrightarrow> rankValue y \<le> rankValue x"
  using assms by (cases x; cases y) (auto simp: onGrid_def)

lemma rankValue_inject:
  assumes "wellFormed x" "wellFormed y" "x \<noteq> NaN" "y \<noteq> NaN"
    and "rankValue x = rankValue y"
  shows "x = y"
  using assms by (cases x; cases y) (auto simp: onGrid_def)

lemma dge_not_NaN: "dge x y \<Longrightarrow> x \<noteq> NaN"
  by (cases x) auto

section \<open>Properties of the vector utilities\<close>

subsection \<open>The loops of \<open>cosineSimilarity\<close>\<close>

lemma dotProduct_computedDot:
  assumes "length a = length b"
  shows "dotProduct a b = computedDot a b"
proof -
  have "zip a b = map (\<lambda>i. (a ! i, b ! i)) [0..<length a]"
    using assms by (intro nth_equalityI) simp_all
  then show ?thesis
    by (simp add: dotProduct_def computedDot_def foldl_map)
qed

lemma sumOfSquares_computed:
  "dsqrt (sumOfSquares (length v) v) = computedMagnitude v"
proof -
  have "v = map (\<lambda>i. v ! i) [0..<length v]"
    by (intro nth_equalityI) simp_all
  then have "foldl (\<lambda>acc x. dadd acc (dmul x x)) (Finite 0) v =
      foldl (\<lambda>acc x. dadd acc (dmul x x)) (Finite 0) (map (\<lambda>i. v ! i) [0..<length v])"
    by simp
  then show ?thesis
    by (simp add: sumOfSquares_def computedMagnitude_def foldl_map)
qed

lemma cosineSimilarity_computed:
  assumes "length a = length b" "a \<noteq> []"
  shows "cosineSimilarity a b =
     (if computedMagnitude a = Finite 0 \<or> computedMagnitude b = Finite 0 then Inr (Finite 0)
      else Inr (ddiv (computedDot a b) (dmul (computedMagnitude a) (computedMagnitude b))))"
proof -
  have c1: "(length a \<noteq> length b) = False"
    using assms(1) by simp
  have c2: "(length a = 0) = False"
    using assms(2) by simp
  have B: "dsqrt (sumOfSquares (length a) b) = computedMagnitude b"
    using sumOfSquares_computed [of b] by (simp add: assms(1))
  show ?thesis
    by (simp only: cosineSimilarity_def Let_def c1 c2 if_False sumOfSquares_computed B
        dotProduct_computedDot [OF assms(1)])
qed


lemma wellFormed_cosineSimilarity:
  "cosineSimilarity a b = Inr s \<Longrightarrow> wellFormed s"
  by (auto simp: cosineSimilarity_def Let_def split: if_splits)



subsection \<open>Rounding, underflow and overflow\<close>

lemma fl_minus_one: "fl (- 1) = Finite (- 1)"
  using fl_exact [of "- 1" 0] by (simp add: pow2_def)

lemma fl_two: "fl 2 = Finite 2"
  using fl_exact [of 2 0] by (simp add: pow2_def)

lemma pow2_square: "pow2 k * pow2 k = pow2 (2 * k)"
  using pow2_add [of k k] by simp

lemma fl_pow2: "- 1074 \<le> k \<Longrightarrow> k < 1024 \<Longrightarrow> fl (pow2 k) = Finite (pow2 k)"
  using fl_exact [of 1 k] pow2_strict_mono [of k 1024] by simp

lemma sqrt_pow2_even: "sqrt (pow2 (2 * k)) = pow2 k"
  by (simp add: pow2_square [symmetric] )


lemma huge_square:
  assumes "pow2 512 \<le> \<bar>x\<bar>"
  shows "fl (x * x) = PosInf"
proof -
  have "pow2 512 * pow2 512 \<le> \<bar>x\<bar> * \<bar>x\<bar>"
    using assms by (intro mult_mono) simp_all
  then have "pow2 1024 \<le> x * x"
    by (simp add: pow2_square)
  then show ?thesis
    by (rule fl_overflow)
qed


lemma cosineSimilarity_overflow:
  assumes "pow2 512 \<le> \<bar>x\<bar>"
  shows "cosineSimilarity [Finite x, Finite 0] [Finite x, Finite 0] = Inr NaN"
proof -
  have "computedMagnitude [Finite x, Finite 0] = PosInf"
    by (simp add: computedMagnitude_def huge_square [OF assms])
  moreover have "computedDot [Finite x, Finite 0] [Finite x, Finite 0] = PosInf"
    by (simp add: computedDot_def huge_square [OF assms])
  ultimately show ?thesis
    by (simp add: cosineSimilarity_computed)
qed

lemma magnitude_ones:
  "computedMagnitude [Finite 1, Finite 1] = Finite (6369051672525773 * pow2 (- 52))"
  by (simp add: computedMagnitude_def fl_one fl_two sqrt2_rounded)

lemma magnitude_ones_squared:
  "fl (6369051672525773 * pow2 (- 52) * (6369051672525773 * pow2 (- 52))) =
     Finite (4503599627370497 * pow2 (- 51))"
  using fl_eval [of 1 "6369051672525773 * pow2 (- 52) * (6369051672525773 * pow2 (- 52))"
      "- 51" 4503599627370497]
  by (simp add: pow2_def)

lemma quotient_ones:
  "fl (2 / (4503599627370497 * pow2 (- 51))) = Finite (9007199254740990 * pow2 (- 53))"
  using fl_eval [of "- 1" "2 / (4503599627370497 * pow2 (- 51))" "- 53" 9007199254740990]
  by (simp add: pow2_def)

lemma cosineSimilarity_ones:
  "cosineSimilarity [Finite 1, Finite 1] [Finite 1, Finite 1] = Inr (Finite (1 - pow2 (- 52)))"
proof -
  let ?ones = "[Finite 1, Finite 1]"
  have dot: "computedDot ?ones ?ones = Finite 2"
    by (simp add: computedDot_def fl_one fl_two)
  have nonzero: "computedMagnitude ?ones \<noteq> Finite 0"
    by (simp add: magnitude_ones pow2_def)
  have product: "dmul (computedMagnitude ?ones) (computedMagnitude ?ones) =
      Finite (4503599627370497 * pow2 (- 51))"
    by (simp only: magnitude_ones dmul.simps magnitude_ones_squared)
  have "4503599627370497 * pow2 (- 51) \<noteq> 0"
    by simp
  then have quotient: "ddiv (Finite 2) (Finite (4503599627370497 * pow2 (- 51))) =
      Finite (9007199254740990 * pow2 (- 53))"
    by (simp only: ddiv.simps if_False quotient_ones)
  have "cosineSimilarity ?ones ?ones = Inr (ddiv (computedDot ?ones ?ones)
      (dmul (computedMagnitude ?ones) (computedMagnitude ?ones)))"
    using nonzero by (simp add: cosineSimilarity_computed)
  then have "cosineSimilarity ?ones ?ones = Inr (Finite (9007199254740990 * pow2 (- 53)))"
    by (simp only: dot product quotient)
  moreover have "9007199254740990 * pow2 (- 53) = 1 - pow2 (- 52)"
    by (simp add: pow2_def)
  ultimately show ?thesis by simp
qed

lemma overflow_gives_NaN: "cosineSimilarity hugeVector hugeVector = Inr NaN"
proof -
  have large: "pow2 512 \<le> \<bar>pow2 600\<bar>"
    using pow2_mono [of 512 600] pow2_pos [of 600] by simp
  show ?thesis
    using cosineSimilarity_overflow [OF large] by (simp add: hugeVector_def)
qed


subsection \<open>The sort, the slice and the ranks\<close>

lemma insertBy_insort_key:
  "insertBy (\<lambda>a b. f b - f a) x ys = insort_key (\<lambda>r. - f r) x ys"
  by (induction ys) simp_all

lemma sortBy_sort_key: "sortBy (\<lambda>a b. f b - f a) xs = sort_key (\<lambda>r. - f r) xs"
  by (induction xs) (simp_all add: sortBy_def insertBy_insort_key)

lemma insort_key_map:
  "insort_key f (g x) (map g ys) = map g (insort_key (\<lambda>y. f (g y)) x ys)"
  by (induction ys) simp_all

lemma sort_key_map: "sort_key f (map g xs) = map g (sort_key (\<lambda>y. f (g y)) xs)"
  by (induction xs) (simp_all add: insort_key_map)

lemma slice_take: "0 < k \<Longrightarrow> slice xs 0 k = take (nat k) xs"
  by (simp add: slice_def relativeIndex_def min_def)

lemma map_snd_enumerate_fun: "map (\<lambda>p. g (snd p)) (enumerate n xs) = map g xs"
  by (induction xs arbitrary: n) simp_all

lemma map_chunk_setRanks: "map chunk (setRanks rs) = map chunk rs"
  by (simp add: setRanks_def comp_def case_prod_unfold map_snd_enumerate_fun)

lemma map_score_setRanks: "map similarity_score (setRanks rs) = map similarity_score rs"
  by (simp add: setRanks_def comp_def case_prod_unfold map_snd_enumerate_fun)

lemma length_setRanks: "length (setRanks rs) = length rs"
  by (simp add: setRanks_def)

lemma map_rank_setRanks: "map rank (setRanks rs) = [1..<Suc (length rs)]"
proof -
  have "map rank (setRanks rs) = map (\<lambda>p. Suc (fst p)) (enumerate 0 rs)"
    by (simp add: setRanks_def comp_def case_prod_unfold)
  also have "\<dots> = map Suc (map fst (enumerate 0 rs))"
    by (simp only: map_map comp_def)
  also have "\<dots> = [1..<Suc (length rs)]"
    by (simp add: map_Suc_upt)
  finally show ?thesis .
qed

text \<open>
  On scores that the arithmetic produced and that are not NaN, the comparator of
  the search orders as the scores do: the sort is the stable sort by descending
  score.
\<close>

lemma insertBy_score:
  assumes "\<forall>r\<in>set (x # ys). wellFormed (similarity_score r) \<and> similarity_score r \<noteq> NaN"
  shows "insertBy byScoreDescending x ys =
     insort_key (\<lambda>r. - rankValue (similarity_score r)) x ys"
  using assms
proof (induction ys)
  case Nil
  then show ?case by simp
next
  case (Cons y ys)
  then have "byScoreDescending x y \<le> 0 \<longleftrightarrow>
      rankValue (similarity_score y) \<le> rankValue (similarity_score x)"
    unfolding byScoreDescending_def by (intro comparator_sign) simp_all
  with Cons show ?case by simp
qed

lemma sortBy_score:
  assumes "\<forall>r\<in>set xs. wellFormed (similarity_score r) \<and> similarity_score r \<noteq> NaN"
  shows "sortBy byScoreDescending xs = sort_key (\<lambda>r. - rankValue (similarity_score r)) xs"
  using assms
proof (induction xs)
  case Nil
  then show ?case by (simp add: sortBy_def)
next
  case (Cons x xs)
  then have "sortBy byScoreDescending xs =
      sort_key (\<lambda>r. - rankValue (similarity_score r)) xs"
    by simp
  moreover have "insertBy byScoreDescending x (sort_key (\<lambda>r. - rankValue (similarity_score r)) xs) =
      insort_key (\<lambda>r. - rankValue (similarity_score r)) x
        (sort_key (\<lambda>r. - rankValue (similarity_score r)) xs)"
    using Cons.prems by (intro insertBy_score) simp
  ultimately show ?case
    by (simp add: sortBy_def)
qed

subsection \<open>The scoring loop\<close>

lemma scoreChunks_foldl:
  "foldl (scoreChunk q m) acc cs =
     acc @ map (\<lambda>c. \<lparr>chunk = c, similarity_score = scoreOf q c, rank = 0\<rparr>)
             (filter (qualifies q m) cs)"
  by (induction cs arbitrary: acc)
    (auto simp: scoreChunk_def scoreOf_def qualifies_def split: sum.splits)

lemma scoreChunks_eq:
  "scoreChunks q m cs =
     map (\<lambda>c. \<lparr>chunk = c, similarity_score = scoreOf q c, rank = 0\<rparr>)
       (filter (qualifies q m) cs)"
  by (simp add: scoreChunks_def scoreChunks_foldl)

lemma qualifies_score:
  assumes "qualifies q m c"
  shows "wellFormed (scoreOf q c)" and "scoreOf q c \<noteq> NaN" and "dge (scoreOf q c) m"
  using assms
  by (auto simp: qualifies_def scoreOf_def split: sum.splits
      dest: wellFormed_cosineSimilarity dge_not_NaN)

text \<open>The ranking before the cut: the qualifying chunks, best score first.\<close>

lemma sorted_scores:
  "sortBy byScoreDescending (scoreChunks q m cs) =
     map (\<lambda>c. \<lparr>chunk = c, similarity_score = scoreOf q c, rank = 0\<rparr>)
       (sort_key (\<lambda>c. - rankValue (scoreOf q c)) (filter (qualifies q m) cs))"
proof -
  have "\<forall>r\<in>set (scoreChunks q m cs).
      wellFormed (similarity_score r) \<and> similarity_score r \<noteq> NaN"
    by (auto simp: scoreChunks_eq qualifies_score)
  then show ?thesis
    by (simp add: sortBy_score) (simp add: scoreChunks_eq sort_key_map)
qed

lemma findSimilarChunks_ranked:
  assumes "q \<noteq> []" "cs \<noteq> []" "0 < k"
  shows "findSimilarChunks q cs k m =
     Inr (setRanks (map (\<lambda>c. \<lparr>chunk = c, similarity_score = scoreOf q c, rank = 0\<rparr>)
       (take (nat k) (sort_key (\<lambda>c. - rankValue (scoreOf q c)) (filter (qualifies q m) cs)))))"
  using assms by (simp add: findSimilarChunks_def Let_def sorted_scores slice_take take_map)

text \<open>An empty query vector is rejected before anything else is looked at.\<close>

lemma findSimilarChunks_empty_query:
  "findSimilarChunks [] chunks topK minSimilarity = Inl QueryVectorEmpty"
  by (simp add: findSimilarChunks_def)

text \<open>
  Claim C4, as the code has it. For a query vector that is not empty: with a
  non-empty candidate list and \<open>0 < topK\<close> the search returns the first \<open>topK\<close>
  entries of a ranking that holds exactly the candidates whose computed cosine
  similarity is \<open>>=\<close> \<open>minSimilarity\<close>, in descending order of score, candidates
  of equal score in their original order; each result carries the score of its
  chunk, and the ranks are 1, 2, ... in output order. With a non-empty candidate
  list, \<open>topK \<le> 0\<close> is an error; an empty candidate list gives the empty result.
\<close>

theorem findSimilarChunks_top_k:
  assumes "queryVector \<noteq> []"
  shows
    "(chunks \<noteq> [] \<and> 0 < topK \<longrightarrow>
        (\<exists>results ranking.
           findSimilarChunks queryVector chunks topK minSimilarity = Inr results \<and>
           mset ranking = mset (filter (qualifies queryVector minSimilarity) chunks) \<and>
           sorted_wrt (\<lambda>c d. dge (scoreOf queryVector c) (scoreOf queryVector d)) ranking \<and>
           (\<forall>s. filter (\<lambda>c. scoreOf queryVector c = s) ranking =
                filter (\<lambda>c. scoreOf queryVector c = s)
                  (filter (qualifies queryVector minSimilarity) chunks)) \<and>
           map chunk results = take (nat topK) ranking \<and>
           map similarity_score results = map (scoreOf queryVector) (map chunk results) \<and>
           map rank results = [1..<Suc (length results)])) \<and>
     (chunks \<noteq> [] \<and> topK \<le> 0 \<longrightarrow>
        findSimilarChunks queryVector chunks topK minSimilarity = Inl TopKNotPositive) \<and>
     (chunks = [] \<longrightarrow> findSimilarChunks queryVector chunks topK minSimilarity = Inr [])"
proof (intro conjI impI)
  let ?score = "scoreOf queryVector"
  let ?key = "\<lambda>c. - rankValue (?score c)"
  let ?qualifying = "filter (qualifies queryVector minSimilarity) chunks"
  let ?ranking = "sort_key ?key ?qualifying"
  let ?results = "setRanks
    (map (\<lambda>c. \<lparr>chunk = c, similarity_score = ?score c, rank = 0\<rparr>) (take (nat topK) ?ranking))"
  assume h: "chunks \<noteq> [] \<and> 0 < topK"
  have ok: "wellFormed (?score c) \<and> ?score c \<noteq> NaN" if "c \<in> set ?ranking" for c
    using that qualifies_score [of queryVector minSimilarity c] by simp
  have res: "findSimilarChunks queryVector chunks topK minSimilarity = Inr ?results"
    using findSimilarChunks_ranked [of queryVector chunks topK minSimilarity] assms h
    by simp
  have perm: "mset ?ranking = mset ?qualifying"
    by (rule mset_sort)
  have "sorted (map ?key ?ranking)"
    by (rule sorted_sort_key)
  then have "sorted_wrt (\<lambda>c d. rankValue (?score d) \<le> rankValue (?score c)) ?ranking"
    by (simp only: sorted_wrt_map neg_le_iff_le)
  then have desc: "sorted_wrt (\<lambda>c d. dge (?score c) (?score d)) ?ranking"
    by (rule sorted_wrt_mono_rel [rotated]) (simp add: dge_rankValue ok)
  have stable: "filter (\<lambda>c. ?score c = s) ?ranking = filter (\<lambda>c. ?score c = s) ?qualifying"
    for s
  proof (cases "wellFormed s \<and> s \<noteq> NaN")
    case True
    have same: "(?score c = s) = (?key c = - rankValue s)" if "c \<in> set ?ranking" for c
      using ok [OF that] True by (auto dest: rankValue_inject)
    have "filter (\<lambda>c. ?score c = s) ?ranking = filter (\<lambda>c. ?key c = - rankValue s) ?ranking"
      by (rule filter_cong) (simp_all add: same)
    also have "\<dots> = filter (\<lambda>c. ?key c = - rankValue s) ?qualifying"
      by (rule sort_key_stable)
    also have "\<dots> = filter (\<lambda>c. ?score c = s) ?qualifying"
      using same by (intro filter_cong) simp_all
    finally show ?thesis .
  next
    case False
    then have none: "?score c \<noteq> s" if "c \<in> set ?ranking" for c
      using ok [OF that] by auto
    have "filter (\<lambda>c. ?score c = s) ?ranking = []"
      using none by (simp add: filter_empty_conv)
    moreover have "filter (\<lambda>c. ?score c = s) ?qualifying = []"
      using none by (simp add: filter_empty_conv)
    ultimately show ?thesis by simp
  qed
  have chunks: "map chunk ?results = take (nat topK) ?ranking"
    by (simp add: map_chunk_setRanks comp_def)
  have scores: "map similarity_score ?results = map ?score (map chunk ?results)"
    by (simp add: map_chunk_setRanks map_score_setRanks comp_def)
  have ranks: "map rank ?results = [1..<Suc (length ?results)]"
    by (simp only: map_rank_setRanks length_setRanks)
  show "\<exists>results ranking.
      findSimilarChunks queryVector chunks topK minSimilarity = Inr results \<and>
      mset ranking = mset (filter (qualifies queryVector minSimilarity) chunks) \<and>
      sorted_wrt (\<lambda>c d. dge (scoreOf queryVector c) (scoreOf queryVector d)) ranking \<and>
      (\<forall>s. filter (\<lambda>c. scoreOf queryVector c = s) ranking =
           filter (\<lambda>c. scoreOf queryVector c = s)
             (filter (qualifies queryVector minSimilarity) chunks)) \<and>
      map chunk results = take (nat topK) ranking \<and>
      map similarity_score results = map (scoreOf queryVector) (map chunk results) \<and>
      map rank results = [1..<Suc (length results)]"
    by (intro exI [of _ ?results] exI [of _ ?ranking] conjI allI
        res perm desc stable chunks scores ranks)
next
  assume "chunks \<noteq> [] \<and> topK \<le> 0"
  with assms show "findSimilarChunks queryVector chunks topK minSimilarity = Inl TopKNotPositive"
    by (simp add: findSimilarChunks_def)
next
  assume "chunks = []"
  with assms show "findSimilarChunks queryVector chunks topK minSimilarity = Inr []"
    by (simp add: findSimilarChunks_def)
qed

theorem findSimilarChunks_top_k_witness:
  "[Finite 1, Finite 0] \<noteq> [] \<and> exampleChunks \<noteq> [] \<and>
   (\<exists>results. findSimilarChunks [Finite 1, Finite 0] exampleChunks 2 (Finite 0) = Inr results \<and>
      map rank results = [1..<Suc (length results)]) \<and>
   findSimilarChunks [Finite 1, Finite 0] exampleChunks 0 (Finite 0) = Inl TopKNotPositive \<and>
   findSimilarChunks [Finite 1, Finite 0] [] 2 (Finite 0) = Inr []"
proof -
  have q: "[Finite 1, Finite 0] \<noteq> []" by simp
  have cs: "exampleChunks \<noteq> []" by (simp add: exampleChunks_def)
  show ?thesis
    using q cs findSimilarChunks_top_k [OF q, of exampleChunks 2 "Finite 0"]
      findSimilarChunks_top_k [OF q, of exampleChunks 0 "Finite 0"]
      findSimilarChunks_top_k [OF q, of "[]" 2 "Finite 0"]
    by auto
qed

text \<open>
  The claim C4 speaks of every query vector. For the empty one the search raises
  an error, although the candidate list is not empty and \<open>topK\<close> is positive.
\<close>

theorem empty_query_is_an_error:
  "exampleChunks \<noteq> [] \<and> (0 :: int) < 5 \<and>
   findSimilarChunks [] exampleChunks 5 (Finite 0) = Inl QueryVectorEmpty"
  by (simp add: findSimilarChunks_def exampleChunks_def)

text \<open>
  Claim C10. With a non-empty query vector and an empty candidate list the search
  returns the empty result for every \<open>topK\<close>, also for \<open>topK \<le> 0\<close>: the test for
  an empty candidate list comes first, so the error for a non-positive \<open>topK\<close> is
  raised only when the candidate list is not empty.
\<close>

theorem empty_candidates_before_topK:
  "(queryVector \<noteq> [] \<longrightarrow> findSimilarChunks queryVector [] topK minSimilarity = Inr []) \<and>
   (findSimilarChunks queryVector chunks topK minSimilarity = Inl TopKNotPositive \<longrightarrow>
      chunks \<noteq> [] \<and> topK \<le> 0)"
  by (simp add: findSimilarChunks_def Let_def)

theorem empty_candidates_before_topK_witness:
  "[Finite 1, Finite 0] \<noteq> [] \<and>
   findSimilarChunks [Finite 1, Finite 0] [] 0 (Finite 0) = Inr [] \<and>
   findSimilarChunks [Finite 1, Finite 0] [] (- 3) (Finite 0) = Inr [] \<and>
   findSimilarChunks [Finite 1, Finite 0] exampleChunks 0 (Finite 0) = Inl TopKNotPositive \<and>
   exampleChunks \<noteq> []"
proof -
  have "findSimilarChunks [Finite 1, Finite 0] exampleChunks 0 (Finite 0) = Inl TopKNotPositive"
    by (simp add: findSimilarChunks_def exampleChunks_def)
  then show ?thesis
    using empty_candidates_before_topK [of "[Finite 1, Finite 0]" 0 "Finite 0" exampleChunks]
      empty_candidates_before_topK [of "[Finite 1, Finite 0]" "- 3" "Finite 0" exampleChunks]
    by simp
qed

subsection \<open>Stored vectors of another dimension\<close>

lemma qualifies_same_dimension:
  "qualifies q m c \<Longrightarrow> length (vec_values (embedding c)) = length q"
  by (auto simp: qualifies_def cosineSimilarity_def split: sum.splits if_splits)

lemma filter_qualifies_same_dimension:
  "filter (qualifies q m) (filter (\<lambda>c. length (vec_values (embedding c)) = length q) cs) =
   filter (qualifies q m) cs"
  by (induction cs) (auto dest: qualifies_same_dimension)

text \<open>
  Claim C2, as the code has it. For a non-empty query vector and \<open>0 < topK\<close> the
  search never fails: a stored chunk whose vector has another dimension than the
  query is reported on the console and skipped, and the result is the one computed
  from the remaining chunks.
\<close>

theorem dimension_mismatch_skipped:
  assumes "queryVector \<noteq> []" and "0 < topK"
  shows
    "(\<exists>results. findSimilarChunks queryVector chunks topK minSimilarity = Inr results) \<and>
     findSimilarChunks queryVector chunks topK minSimilarity =
       findSimilarChunks queryVector
         (filter (\<lambda>c. length (vec_values (embedding c)) = length queryVector) chunks)
         topK minSimilarity \<and>
     consoleErrors queryVector chunks =
       map chunk_id
         (filter (\<lambda>c. length (vec_values (embedding c)) \<noteq> length queryVector) chunks)"
proof (intro conjI)
  show "\<exists>results. findSimilarChunks queryVector chunks topK minSimilarity = Inr results"
    using assms by (simp add: findSimilarChunks_def Let_def)
next
  let ?same = "filter (\<lambda>c. length (vec_values (embedding c)) = length queryVector) chunks"
  have scores: "scoreChunks queryVector minSimilarity ?same =
      scoreChunks queryVector minSimilarity chunks"
    by (simp only: scoreChunks_eq filter_qualifies_same_dimension)
  have none: "scoreChunks queryVector minSimilarity chunks = []" if "?same = []"
    using scores that by (simp add: scoreChunks_def)
  show "findSimilarChunks queryVector chunks topK minSimilarity =
      findSimilarChunks queryVector ?same topK minSimilarity"
  proof (cases "?same = []")
    case True
    then show ?thesis
      using assms none
      by (simp add: findSimilarChunks_def Let_def sortBy_def slice_def setRanks_def)
  next
    case False
    then have "chunks \<noteq> []" by auto
    with False assms show ?thesis
      by (simp only: findSimilarChunks_def Let_def scores) simp
  qed
next
  have "isl (cosineSimilarity queryVector v) \<longleftrightarrow> length v \<noteq> length queryVector" for v
    using assms by (auto simp: cosineSimilarity_def Let_def)
  then show "consoleErrors queryVector chunks =
      map chunk_id
        (filter (\<lambda>c. length (vec_values (embedding c)) \<noteq> length queryVector) chunks)"
    by (simp add: consoleErrors_def)
qed

theorem dimension_mismatch_skipped_witness:
  "[Finite 1, Finite 0] \<noteq> [] \<and> (0 :: int) < 5 \<and>
   (\<exists>results. findSimilarChunks [Finite 1, Finite 0] exampleChunks 5 (Finite 0) = Inr results) \<and>
   consoleErrors [Finite 1, Finite 0] exampleChunks = [''b'']"
proof -
  have q: "[Finite 1, Finite 0] \<noteq> []" and k: "(0 :: int) < 5" by simp_all
  note skipped = dimension_mismatch_skipped [OF q k, of exampleChunks "Finite 0"]
  have other: "map chunk_id
      (filter (\<lambda>c. length (vec_values (embedding c)) \<noteq> length [Finite 1, Finite 0])
        exampleChunks) = [''b'']"
    by (simp add: exampleChunks_def exampleChunk_def)
  have returns:
    "\<exists>results. findSimilarChunks [Finite 1, Finite 0] exampleChunks 5 (Finite 0) = Inr results"
    using skipped by (rule conjunct1)
  have "consoleErrors [Finite 1, Finite 0] exampleChunks = map chunk_id
      (filter (\<lambda>c. length (vec_values (embedding c)) \<noteq> length [Finite 1, Finite 0])
        exampleChunks)"
    using skipped by (elim conjE)
  then have logged: "consoleErrors [Finite 1, Finite 0] exampleChunks = [''b'']"
    by (simp only: other)
  show ?thesis
    by (intro conjI q k returns logged)
qed

subsection \<open>The search on the example chunks\<close>

lemma cosineSimilarity_orthogonal:
  "cosineSimilarity [Finite 1, Finite 0] [Finite 0, Finite 1] = Inr (Finite 0)"
  by (simp add: cosineSimilarity_def dotProduct_def sumOfSquares_def fl_zero fl_one)

lemma cosineSimilarity_same:
  "cosineSimilarity [Finite 1, Finite 0] [Finite 1, Finite 0] = Inr (Finite 1)"
  by (simp add: cosineSimilarity_def dotProduct_def sumOfSquares_def fl_zero fl_one)

lemma cosineSimilarity_other_dimension:
  "cosineSimilarity [Finite 1, Finite 0] [Finite 1, Finite 0, Finite 0] = Inl DimensionMismatch"
  by (simp add: cosineSimilarity_def)

lemma exampleSearch:
  "findSimilarChunks [Finite 1, Finite 0] exampleChunks 5 (Finite 0) =
     Inr [\<lparr>chunk = exampleChunk ''c'' ''g.md'' [1, 0], similarity_score = Finite 1, rank = 1\<rparr>,
          \<lparr>chunk = exampleChunk ''a'' ''f.md'' [0, 1], similarity_score = Finite 0, rank = 2\<rparr>]"
  by (simp add: findSimilarChunks_def scoreChunks_def scoreChunk_def exampleChunks_def
      exampleChunk_def cosineSimilarity_orthogonal cosineSimilarity_same
      cosineSimilarity_other_dimension sortBy_def byScoreDescending_def fl_minus_one fl_one
      slice_def relativeIndex_def setRanks_def)

text \<open>
  A score that the rounding leaves below 1 does not reach the threshold 1: the
  vector \<open>[1, 1]\<close> is not found by a search for itself.
\<close>

lemma rounded_score_below_threshold:
  "findSimilarChunks [Finite 1, Finite 1] [exampleChunk ''s'' ''f.md'' [1, 1]] 5 (Finite 1) =
     Inr []"
proof -
  have "0 < pow2 (- 52)"
    by (rule pow2_pos)
  then show ?thesis
    by (simp add: findSimilarChunks_def scoreChunks_def scoreChunk_def exampleChunk_def
        cosineSimilarity_ones sortBy_def slice_def relativeIndex_def setRanks_def)
qed

text \<open>
  The claim C2 as the specification states it fails: the second example chunk has
  three dimensions, the query two, and the query returns the two other chunks.
\<close>

theorem dimension_mismatch_not_fatal:
  "length (vec_values (embedding (exampleChunks ! 1))) \<noteq> length [Finite 1, Finite 0] \<and>
   findSimilarChunks [Finite 1, Finite 0] exampleChunks 5 (Finite 0) =
     Inr [\<lparr>chunk = exampleChunk ''c'' ''g.md'' [1, 0], similarity_score = Finite 1, rank = 1\<rparr>,
          \<lparr>chunk = exampleChunk ''a'' ''f.md'' [0, 1], similarity_score = Finite 0, rank = 2\<rparr>]"
  by (simp add: exampleSearch) (simp add: exampleChunks_def exampleChunk_def)

section \<open>Properties of the RAG service\<close>

subsection \<open>Ingesting a file name again\<close>

lemma filename_embedChunk: "filename (source (embedChunk file now c e)) = file"
  by (simp add: embedChunk_def)

lemma pushEmbeddedChunks_success:
  "pushEmbeddedChunks fname now cs es stored = (None, stored') \<Longrightarrow>
     length cs \<le> length es \<and>
     stored' = stored @ map (\<lambda>(c, e). embedChunk fname now c e) (zip cs es)"
  by (induction fname now cs es stored rule: pushEmbeddedChunks.induct) auto

lemma processDocument_success:
  assumes "processDocument deps now file text s = (None, s')"
  shows "\<exists>es. length (documentChunks deps file text) \<le> length es \<and>
           embeddedChunks s' = embeddedChunks s @
             map (\<lambda>(c, e). embedChunk file now c e) (zip (documentChunks deps file text) es) \<and>
           (\<exists>doc. documentsIndex s' file = Some doc \<and>
              chunk_count doc = length (documentChunks deps file text))"
  using assms
  by (auto simp: processDocument_def Let_def logMessage_def documentChunks_def
      split: sum.splits prod.splits option.splits dest!: pushEmbeddedChunks_success)

lemma storedFor_processDocument:
  assumes "processDocument deps now file text s = (None, s')"
  shows "\<exists>new. storedFor file s' = storedFor file s @ new \<and>
           length new = length (documentChunks deps file text) \<and>
           (\<exists>doc. documentsIndex s' file = Some doc \<and>
              chunk_count doc = length (documentChunks deps file text))"
proof -
  from processDocument_success [OF assms] obtain es doc where
    len: "length (documentChunks deps file text) \<le> length es" and
    chunks: "embeddedChunks s' = embeddedChunks s @
      map (\<lambda>(c, e). embedChunk file now c e) (zip (documentChunks deps file text) es)" and
    doc: "documentsIndex s' file = Some doc" "chunk_count doc = length (documentChunks deps file text)"
    by blast
  let ?new = "map (\<lambda>(c, e). embedChunk file now c e) (zip (documentChunks deps file text) es)"
  have "filter (\<lambda>c. filename (source c) = file) ?new = ?new"
    by (rule filter_True) (auto simp: filename_embedChunk)
  then have "storedFor file s' = storedFor file s @ ?new"
    by (simp add: storedFor_def chunks)
  moreover have "length ?new = length (documentChunks deps file text)"
    using len by simp
  ultimately show ?thesis using doc by blast
qed

text \<open>
  \<open>processDocument\<close> only ever pushes onto \<open>embeddedChunks\<close>: when a file name is
  ingested and then ingested again, the chunks of the first ingestion stay in front
  of those of the second, so that the index holds the sum of the two chunk counts
  for that file name. The entry of the file name in the documents index is
  replaced, and its \<open>chunk_count\<close> is the count of the second ingestion.
\<close>

lemma reingest_appends:
  assumes first: "processDocument deps now1 file text1 s = (None, s1)"
    and second: "processDocument deps now2 file text2 s1 = (None, s2)"
  shows "take (length (storedFor file s1)) (storedFor file s2) = storedFor file s1 \<and>
     length (storedFor file s2) =
       length (storedFor file s) + length (documentChunks deps file text1) +
       length (documentChunks deps file text2) \<and>
     (\<exists>doc. documentsIndex s2 file = Some doc \<and>
        chunk_count doc = length (documentChunks deps file text2))"
proof -
  from storedFor_processDocument [OF first] obtain new1 where
    one: "storedFor file s1 = storedFor file s @ new1"
      "length new1 = length (documentChunks deps file text1)"
    by blast
  from storedFor_processDocument [OF second] obtain new2 doc where
    two: "storedFor file s2 = storedFor file s1 @ new2"
      "length new2 = length (documentChunks deps file text2)"
      "documentsIndex s2 file = Some doc"
      "chunk_count doc = length (documentChunks deps file text2)"
    by blast
  show ?thesis
    using one two by simp
qed

lemma exampleChunkId: "generateChunkId ''a.md'' 0 = ''a_chunk_0000''"
  by code_simp

lemma ingestedOnce_eq:
  "processDocument exampleDeps 0 ''a.md'' ''one'' (newRAGService exampleConfig) = (None, ingestedOnce)"
  by (simp add: ingestedOnce_def processDocument_def exampleDeps_def Let_def logMessage_def
      newRAGService_def)

lemma ingestedTwice_eq:
  "processDocument exampleDeps 1 ''a.md'' ''two'' ingestedOnce = (None, ingestedTwice)"
  by (simp add: ingestedTwice_def processDocument_def exampleDeps_def Let_def logMessage_def)

lemma reingest_appends_example:
  "length (storedFor ''a.md'' ingestedTwice) =
     length (storedFor ''a.md'' (newRAGService exampleConfig)) +
     length (documentChunks exampleDeps ''a.md'' ''one'') +
     length (documentChunks exampleDeps ''a.md'' ''two'')"
  using reingest_appends [OF ingestedOnce_eq ingestedTwice_eq] by blast

text \<open>
  Claim C1 fails, and the state the code leaves is not a consistent index. On a
  service that has just been constructed, \<open>a.md\<close> is ingested with the content
  \<open>one\<close> and then ingested again with the content \<open>two\<close>, each time as one
  chunk. Both ingestions succeed. Afterwards the index holds both chunks for
  \<open>a.md\<close>, not only the chunk of the second ingestion; the two chunks carry the
  same identifier \<open>a_chunk_0000\<close>, which the types of the service document as
  unique; and the entry of \<open>a.md\<close> in the documents index counts one chunk.
\<close>

theorem reingest_keeps_old_chunks:
  "processDocument exampleDeps 0 ''a.md'' ''one'' (newRAGService exampleConfig) =
     (None, ingestedOnce) \<and>
   processDocument exampleDeps 1 ''a.md'' ''two'' ingestedOnce = (None, ingestedTwice) \<and>
   map chunk_text (storedFor ''a.md'' ingestedTwice) = [''one'', ''two''] \<and>
   map chunk_id (storedFor ''a.md'' ingestedTwice) = [''a_chunk_0000'', ''a_chunk_0000''] \<and>
   map tc_text (documentChunks exampleDeps ''a.md'' ''two'') = [''two''] \<and>
   map_option chunk_count (documentsIndex ingestedTwice ''a.md'') = Some 1"
proof -
  have "map chunk_text (storedFor ''a.md'' ingestedTwice) = [''one'', ''two''] \<and>
      map chunk_id (storedFor ''a.md'' ingestedTwice) =
        [generateChunkId ''a.md'' 0, generateChunkId ''a.md'' 0] \<and>
      map tc_text (documentChunks exampleDeps ''a.md'' ''two'') = [''two''] \<and>
      map_option chunk_count (documentsIndex ingestedTwice ''a.md'') = Some 1"
    by (simp add: ingestedTwice_def ingestedOnce_def processDocument_def exampleDeps_def Let_def
        logMessage_def newRAGService_def storedFor_def documentChunks_def embedChunk_def)
  then show ?thesis
    by (simp only: exampleChunkId ingestedOnce_eq ingestedTwice_eq simp_thms)
qed

subsection \<open>Filters and ranking\<close>

lemma applyFilters_subseq: "length (applyFilters rs fs) \<le> length rs"
  by (simp add: applyFilters_def split: option.splits)

lemma passesFilters_filenames:
  "names \<noteq> [] \<Longrightarrow>
   passesFilters \<lparr>filenames = Some names, sections = None, dateRange = None\<rparr> =
     (\<lambda>r. filename (source (chunk r)) \<in> set names)"
  by (rule ext) (simp add: passesFilters_def)

text \<open>
  Claim C6. Whenever a query returns, its chunks are the ranked list that
  \<open>findSimilarChunks\<close> cut to \<open>top_k\<close> entries, filtered afterwards: the filters
  never see a chunk beyond the cut. In particular, with a file name filter that
  exactly one entry of the ranked list satisfies, the query returns exactly one
  chunk, whatever the rest of the corpus holds.
\<close>

theorem filters_after_ranking:
  assumes "retrieveContent deps query params s = Inr result"
  shows "\<exists>queryEmbedding ranked.
     generateQueryEmbedding deps query = Inr queryEmbedding \<and>
     findSimilarChunks queryEmbedding (embeddedChunks s) (top_k params)
       (effectiveMinScore (config s) (min_similarity_score params)) = Inr ranked \<and>
     retrieved_chunks result = applyFilters ranked (filters params) \<and>
     (\<forall>f. filters params = Some f \<longrightarrow>
        retrieved_chunks result = filter (passesFilters f) ranked) \<and>
     (\<forall>names. filters params = Some \<lparr>filenames = Some names, sections = None, dateRange = None\<rparr> \<and>
        names \<noteq> [] \<and>
        length (filter (\<lambda>r. filename (source (chunk r)) \<in> set names) ranked) = 1 \<longrightarrow>
        length (retrieved_chunks result) = 1)"
  using assms
  by (auto simp: retrieveContent_def applyFilters_def passesFilters_filenames
      split: if_splits sum.splits)

lemma exampleQueryEmbedding:
  "generateQueryEmbedding exampleDeps ''q'' = Inr [Finite 1, Finite 0]"
  by (simp add: generateQueryEmbedding_def exampleDeps_def validateVector_def)

lemma exampleRanking:
  "findSimilarChunks [Finite 1, Finite 0] exampleCorpus 5 (Finite (- 1)) =
     Inr [\<lparr>chunk = exampleChunk ''a1'' ''a.md'' [1, 0], similarity_score = Finite 1, rank = 1\<rparr>,
          \<lparr>chunk = exampleChunk ''b1'' ''b.md'' [1, 0], similarity_score = Finite 1, rank = 2\<rparr>,
          \<lparr>chunk = exampleChunk ''b2'' ''b.md'' [1, 0], similarity_score = Finite 1, rank = 3\<rparr>,
          \<lparr>chunk = exampleChunk ''b3'' ''b.md'' [1, 0], similarity_score = Finite 1, rank = 4\<rparr>,
          \<lparr>chunk = exampleChunk ''b4'' ''b.md'' [1, 0], similarity_score = Finite 1, rank = 5\<rparr>]"
  by (simp add: findSimilarChunks_def scoreChunks_def scoreChunk_def exampleCorpus_def
      exampleChunk_def cosineSimilarity_orthogonal cosineSimilarity_same sortBy_def
      byScoreDescending_def fl_zero fl_one fl_minus_one slice_def relativeIndex_def setRanks_def)

lemma exampleRetrieval:
  "retrieveContent exampleDeps ''q'' exampleParams exampleService =
     Inr exampleResult"
  by (simp add: exampleResult_def retrieveContent_def exampleQueryEmbedding exampleService_def exampleParams_def
      effectiveMinScore_def exampleRanking applyFilters_def passesFilters_def exampleChunk_def)
    (simp add: exampleCorpus_def)

text \<open>
  The scenario of the specification: the five best chunks hold one chunk of
  \<open>a.md\<close>, two more chunks of \<open>a.md\<close> lie beyond the cut, and the query with
  \<open>top_k = 5\<close> and the file name filter \<open>a.md\<close> returns one chunk.
\<close>

theorem filters_after_ranking_witness:
  "retrieveContent exampleDeps ''q'' exampleParams exampleService = Inr exampleResult \<and>
   (\<exists>ranked. findSimilarChunks [Finite 1, Finite 0] exampleCorpus 5 (Finite (- 1)) = Inr ranked \<and> length ranked = 5 \<and>
      retrieved_chunks exampleResult = applyFilters ranked (filters exampleParams)) \<and>
   length (retrieved_chunks exampleResult) = 1 \<and>
   length (filter (\<lambda>c. filename (source c) = ''a.md'') exampleCorpus) = 3"
proof -
  from filters_after_ranking [OF exampleRetrieval] obtain queryEmbedding ranked where
    q: "generateQueryEmbedding exampleDeps ''q'' = Inr queryEmbedding" and
    r: "findSimilarChunks queryEmbedding (embeddedChunks exampleService) (top_k exampleParams)
          (effectiveMinScore (config exampleService) (min_similarity_score exampleParams)) =
        Inr ranked" and
    f: "retrieved_chunks exampleResult = applyFilters ranked (filters exampleParams)"
    by blast
  from q have "queryEmbedding = [Finite 1, Finite 0]"
    by (simp add: exampleQueryEmbedding)
  with r have r': "findSimilarChunks [Finite 1, Finite 0] exampleCorpus 5 (Finite (- 1)) = Inr ranked"
    by (simp add: exampleService_def exampleParams_def effectiveMinScore_def)
  then have "length ranked = 5"
    by (auto simp: exampleRanking)
  moreover have "length (retrieved_chunks exampleResult) = 1"
    by (simp add: exampleResult_def)
  moreover have "length (filter (\<lambda>c. filename (source c) = ''a.md'') exampleCorpus) = 3"
    by (simp add: exampleCorpus_def exampleChunk_def)
  ultimately show ?thesis
    using exampleRetrieval r' f by blast
qed

subsection \<open>Loading the cache\<close>

text \<open>
  Claim C8. Loading the cache into a service that has just been constructed always
  returns, with the service initialised. A missing chunks file leaves the chunk list
  empty and a missing documents file the documents index, without a warning; a
  malformed file leaves its part of the index empty and logs a warning.
\<close>

theorem load_is_best_effort:
  "\<exists>s'. initialize d (newRAGService cfg) = Inr s' \<and> isInitialized s' \<and>
     (chunksFile d = Absent \<longrightarrow>
        embeddedChunks s' = [] \<and> (Warn, ''Failed to load cached chunks'') \<notin> set (logged s')) \<and>
     (chunksFile d = Malformed \<longrightarrow>
        embeddedChunks s' = [] \<and> (Warn, ''Failed to load cached chunks'') \<in> set (logged s')) \<and>
     (documentsFile d = Absent \<longrightarrow>
        documentsIndex s' = Map.empty \<and>
        (Warn, ''Failed to load cached documents'') \<notin> set (logged s')) \<and>
     (documentsFile d = Malformed \<longrightarrow>
        documentsIndex s' = Map.empty \<and>
        (Warn, ''Failed to load cached documents'') \<in> set (logged s'))"
  by (cases "chunksFile d"; cases "documentsFile d")
    (simp_all add: initialize_def loadExistingData_def loadChunks_def loadDocuments_def
      existsSync_def readAndParse_def logMessage_def newRAGService_def)

theorem load_is_best_effort_witness:
  "\<exists>s'. initialize \<lparr>chunksFile = Absent, documentsFile = Malformed\<rparr> (newRAGService exampleConfig) =
       Inr s' \<and>
     embeddedChunks s' = [] \<and> documentsIndex s' = Map.empty \<and>
     (Warn, ''Failed to load cached documents'') \<in> set (logged s')"
  using load_is_best_effort [of "\<lparr>chunksFile = Absent, documentsFile = Malformed\<rparr>" exampleConfig]
  by auto

section \<open>Properties of the plugin service\<close>

lemma slice_take_nonneg: "0 \<le> k \<Longrightarrow> slice xs 0 k = take (nat k) xs"
  by (simp add: slice_def relativeIndex_def min_def)

lemma checkActivation_foldl:
  "foldl (checkActivation input ctx) acc ps = acc @ filter (activates input ctx) ps"
  by (induction ps arbitrary: acc)
    (auto simp: checkActivation_def activates_def split: sum.splits)

lemma findActivatedPlugins_eq:
  "0 \<le> max_plugins_per_request (plugin_config s) \<Longrightarrow>
   findActivatedPlugins s input ctx =
     take (nat (max_plugins_per_request (plugin_config s)))
       (sort_key (\<lambda>p. - priority p) (filter (activates input ctx) (plugins s)))"
  by (simp add: findActivatedPlugins_def Let_def checkActivation_foldl sortBy_sort_key
      slice_take_nonneg)

lemma executePluginsSequential_foldl:
  "foldl (\<lambda>results p. results @ [executePlugin cfg input ctx p]) acc ps =
     acc @ map (executePlugin cfg input ctx) ps"
  by (induction ps arbitrary: acc) simp_all

lemma executePlugins_map:
  "executePlugins cfg ps input ctx = map (executePlugin cfg input ctx) ps"
  by (simp add: executePlugins_def executePluginsParallel_def executePluginsSequential_def
      executePluginsSequential_foldl)

lemma plugins_executed_processInput:
  "plugins_executed (processInput s input ctx) =
     (if system_enabled (plugin_config s)
      then map (executePlugin (plugin_config s) input ctx) (findActivatedPlugins s input ctx)
      else [])"
  by (simp add: processInput_def nothingExecuted_def Let_def executePlugins_map)

lemma fst_executePlugin: "fst (executePlugin cfg input ctx p) = name p"
  by (simp add: executePlugin_def split: sum.splits)

text \<open>
  Claim C9. With a limit \<open>max_plugins_per_request\<close> that is not negative, the
  plugins found for an input are the first \<open>max_plugins_per_request\<close> entries of a
  ranking that holds exactly the enabled plugins whose \<open>shouldActivate\<close> returns
  true, in descending order of priority, plugins of equal priority in the order of
  their registration; the plugins executed are the plugins found, so there are at
  most \<open>max_plugins_per_request\<close> of them.
\<close>

theorem activated_plugins_ranked:
  assumes "0 \<le> max_plugins_per_request (plugin_config s)"
  shows "\<exists>ranking.
     mset ranking = mset (filter (activates input ctx) (plugins s)) \<and>
     sorted_wrt (\<lambda>p q. priority p \<ge> priority q) ranking \<and>
     (\<forall>x. filter (\<lambda>p. priority p = x) ranking =
          filter (\<lambda>p. priority p = x) (filter (activates input ctx) (plugins s))) \<and>
     findActivatedPlugins s input ctx =
       take (nat (max_plugins_per_request (plugin_config s))) ranking \<and>
     (system_enabled (plugin_config s) \<longrightarrow>
        map fst (plugins_executed (processInput s input ctx)) =
          map name (findActivatedPlugins s input ctx)) \<and>
     int (length (plugins_executed (processInput s input ctx))) \<le>
       max_plugins_per_request (plugin_config s)"
proof -
  let ?selected = "filter (activates input ctx) (plugins s)"
  let ?ranking = "sort_key (\<lambda>p. - priority p) ?selected"
  let ?k = "max_plugins_per_request (plugin_config s)"
  have perm: "mset ?ranking = mset ?selected"
    by (rule mset_sort)
  have "sorted (map (\<lambda>p. - priority p) ?ranking)"
    by (rule sorted_sort_key)
  then have desc: "sorted_wrt (\<lambda>p q. priority p \<ge> priority q) ?ranking"
    by (simp only: sorted_wrt_map neg_le_iff_le)
  have stable: "filter (\<lambda>p. priority p = x) ?ranking = filter (\<lambda>p. priority p = x) ?selected"
    for x
    using sort_key_stable [of "\<lambda>p. - priority p" "- x" ?selected]
    by (simp only: neg_equal_iff_equal)
  have cut: "findActivatedPlugins s input ctx = take (nat ?k) ?ranking"
    using assms by (rule findActivatedPlugins_eq)
  have names: "system_enabled (plugin_config s) \<longrightarrow>
      map fst (plugins_executed (processInput s input ctx)) =
        map name (findActivatedPlugins s input ctx)"
    by (simp add: plugins_executed_processInput comp_def fst_executePlugin)
  have "length (plugins_executed (processInput s input ctx)) \<le> nat ?k"
    by (simp add: plugins_executed_processInput cut)
  then have bound: "int (length (plugins_executed (processInput s input ctx))) \<le> ?k"
    using assms by linarith
  show ?thesis
    by (intro exI [of _ ?ranking] conjI allI perm desc stable cut names bound)
qed

lemma exampleActivated:
  "map name (findActivatedPlugins examplePluginService ''x'' exampleContext) = [''first'', ''second'']"
  by (simp add: findActivatedPlugins_def examplePluginService_def examplePlugin_def
      checkActivation_def sortBy_def slice_def relativeIndex_def exampleSystemConfig_def)

theorem activated_plugins_ranked_witness:
  "0 \<le> max_plugins_per_request (plugin_config examplePluginService) \<and>
   map name (findActivatedPlugins examplePluginService ''x'' exampleContext) = [''first'', ''second''] \<and>
   map fst (plugins_executed (processInput examplePluginService ''x'' exampleContext)) =
     [''first'', ''second''] \<and>
   int (length (plugins_executed (processInput examplePluginService ''x'' exampleContext))) \<le> 2"
proof -
  have k: "0 \<le> max_plugins_per_request (plugin_config examplePluginService)"
    and on: "system_enabled (plugin_config examplePluginService)"
    and two: "max_plugins_per_request (plugin_config examplePluginService) = 2"
    by (simp_all add: examplePluginService_def exampleSystemConfig_def)
  from activated_plugins_ranked [OF k, of "''x''" exampleContext] on
  have "map fst (plugins_executed (processInput examplePluginService ''x'' exampleContext)) =
      map name (findActivatedPlugins examplePluginService ''x'' exampleContext)"
    and "int (length (plugins_executed (processInput examplePluginService ''x'' exampleContext))) \<le>
      max_plugins_per_request (plugin_config examplePluginService)"
    by blast+
  then show ?thesis
    using k two exampleActivated by simp
qed

text \<open>
  Claim C3, as the code has it. Executing the dispatched plugins gives one result for
  each of them, in either execution mode. A plugin whose execution exceeds the
  timeout gets the failure result of the \<^verbatim>\<open>catch\<close> block, and so does a plugin
  whose execution rejects: the same result, with the error code
  \<open>EXECUTION_ERROR\<close>. The dispatch records these results as they are.
\<close>

theorem timeout_is_execution_error:
  "length (executePlugins cfg ps input ctx) = length ps \<and>
   (\<forall>i < length ps. execute (ps ! i) input ctx = ExceedsTimeout \<longrightarrow>
      executePlugins cfg ps input ctx ! i = (name (ps ! i), executionFailed (ps ! i))) \<and>
   (\<forall>i < length ps. \<forall>m. execute (ps ! i) input ctx = Rejects m \<longrightarrow>
      executePlugins cfg ps input ctx ! i = (name (ps ! i), executionFailed (ps ! i))) \<and>
   (\<forall>p. \<not> success (executionFailed p) \<and>
      map_option code (result_error (executionFailed p)) = Some ''EXECUTION_ERROR'') \<and>
   (\<forall>s. system_enabled (plugin_config s) \<longrightarrow>
      plugins_executed (processInput s input ctx) =
        executePlugins (plugin_config s) (findActivatedPlugins s input ctx) input ctx)"
  by (simp add: plugins_executed_processInput executePlugins_map executePlugin_def race_def
      executionFailed_def)

theorem timeout_is_execution_error_witness:
  "executePlugins exampleSystemConfig [slowPlugin, failingPlugin] ''x'' exampleContext ! 0 =
     (''slow'', executionFailed slowPlugin) \<and>
   executePlugins exampleSystemConfig [slowPlugin, failingPlugin] ''x'' exampleContext ! 1 =
     (''failing'', executionFailed failingPlugin)"
  using timeout_is_execution_error
    [of exampleSystemConfig "[slowPlugin, failingPlugin]" "''x''" exampleContext]
  by (simp add: slowPlugin_def failingPlugin_def examplePlugin_def)

text \<open>
  The claim C3 as the specification states it fails: the plugin that exceeds the
  timeout and the plugin that rejects get the same error code.
\<close>

theorem timeout_code_not_specific:
  "execute slowPlugin ''x'' exampleContext = ExceedsTimeout \<and>
   execute failingPlugin ''x'' exampleContext = Rejects ''boom'' \<and>
   errorCodes (executePluginsSequential exampleSystemConfig [slowPlugin, failingPlugin] ''x''
       exampleContext) =
     [(''slow'', Some ''EXECUTION_ERROR''), (''failing'', Some ''EXECUTION_ERROR'')]"
  by (simp add: errorCodes_def executePluginsSequential_def executePlugin_def race_def
      executionFailed_def slowPlugin_def failingPlugin_def examplePlugin_def)

section \<open>Properties of the memory service\<close>

lemma slice_front:
  "0 < t \<Longrightarrow> slice xs 0 (- t) = take (length xs - nat t) xs"
  by (auto simp: slice_def relativeIndex_def Let_def max_def nat_diff_distrib')

lemma sliceFrom_back:
  "0 < t \<Longrightarrow> sliceFrom xs (- t) = drop (length xs - nat t) xs"
  by (auto simp: sliceFrom_def slice_def relativeIndex_def Let_def max_def nat_diff_distrib')

lemma trimmed_neq [simp]:
  "''Trimmed session '' @ a \<noteq> ''Updated summary for session '' @ b"
  "''Trimmed session '' @ a \<noteq> ''Created new session: '' @ b"
  "''Trimmed session '' @ a \<noteq> ''Added message to session '' @ b"
  by simp_all

lemma manageSessionSize_compacts:
  assumes session: "sessions s key = Some session"
    and key: "session_id session = key"
    and over: "int (length (messages session)) > maxMessagesPerSession (memory_config s)"
    and t: "0 < summaryThreshold (memory_config s)"
  shows "liveMessages (manageSessionSize key s) key =
       drop (length (messages session) - nat (summaryThreshold (memory_config s))) (messages session)"
    and "compactions (manageSessionSize key s) key = compactions s key + 1"
    and "\<exists>sm. sessionSummaries (manageSessionSize key s) key = Some sm \<and>
       summary sm = createSimpleSummary
         (take (length (messages session) - nat (summaryThreshold (memory_config s)))
            (messages session)) \<and>
       message_count sm = length (messages session)"
    and "memory_config (manageSessionSize key s) = memory_config s"
  using assms
  by (simp_all add: manageSessionSize_def Let_def updateSessionSummary_def memoryLog_def
      liveMessages_def compactions_def slice_front sliceFrom_back)

lemma addMessage_unfold:
  "addMessage sessionId r text messageId now s =
     (let msg = \<lparr>message_id = messageId, role = r, message_content = text, timestamp = now\<rparr>;
          session = (case sessions s sessionId of
                       Some existing \<Rightarrow> existing | None \<Rightarrow> createNewSession sessionId now);
          s1 = (case sessions s sessionId of
                  Some existing \<Rightarrow> s
                | None \<Rightarrow> memoryLog Debug (''Created new session: '' @ sessionId) s);
          pushed = session\<lparr>messages := messages session @ [msg], session_updated_at := now\<rparr>;
          s2 = s1\<lparr>sessions := (sessions s)(sessionId \<mapsto> pushed)\<rparr>
      in (msg, memoryLog Debug (''Added message to session '' @ sessionId)
                 (manageSessionSize sessionId s2)))"
  by (simp add: addMessage_def Let_def memoryLog_def split: option.splits)

text \<open>
  With a threshold of 0, or one above the number of messages, the cut keeps every
  message: \<open>slice(-0)\<close> is \<open>slice(0)\<close>, and a larger threshold reaches back to
  the first message.
\<close>

lemma sliceFrom_keeps_all:
  "t = 0 \<or> int (length xs) \<le> t \<Longrightarrow> sliceFrom xs (- t) = xs"
  by (auto simp: sliceFrom_def slice_def relativeIndex_def Let_def max_def)

text \<open>
  In a service configured with \<open>0 < summaryThreshold \<le> maxMessagesPerSession\<close>,
  adding the message that takes a session over \<open>maxMessagesPerSession\<close> compacts
  the session exactly once in that call: afterwards the live messages are the last
  \<open>summaryThreshold\<close> messages of the session, the added one included, and no
  others; a summary record of the session exists, made from the messages that were
  removed, which are in the session no more.
\<close>

lemma compaction_on_overflow:
  assumes t: "0 < summaryThreshold (memory_config s)"
    and le: "summaryThreshold (memory_config s) \<le> maxMessagesPerSession (memory_config s)"
    and key: "\<forall>x. sessions s sessionId = Some x \<longrightarrow> session_id x = sessionId"
    and over: "int (length (liveMessages s sessionId)) + 1 > maxMessagesPerSession (memory_config s)"
    and add: "addMessage sessionId r text messageId now s = (msg, s')"
  shows "compactions s' sessionId = compactions s sessionId + 1 \<and>
     liveMessages s' sessionId =
       drop (length (liveMessages s sessionId) + 1 - nat (summaryThreshold (memory_config s)))
         (liveMessages s sessionId @ [msg]) \<and>
     int (length (liveMessages s' sessionId)) = summaryThreshold (memory_config s) \<and>
     (\<exists>sm. sessionSummaries s' sessionId = Some sm \<and>
        message_count sm = length (liveMessages s sessionId) + 1 \<and>
        summary sm = createSimpleSummary
          (take (length (liveMessages s sessionId) + 1 - nat (summaryThreshold (memory_config s)))
             (liveMessages s sessionId @ [msg])))"
proof -
  let ?msg = "\<lparr>message_id = messageId, role = r, message_content = text, timestamp = now\<rparr>"
  let ?session = "case sessions s sessionId of
      Some existing \<Rightarrow> existing | None \<Rightarrow> createNewSession sessionId now"
  let ?s1 = "case sessions s sessionId of
      Some existing \<Rightarrow> s
    | None \<Rightarrow> memoryLog Debug (''Created new session: '' @ sessionId) s"
  let ?pushed = "?session\<lparr>messages := messages ?session @ [?msg], session_updated_at := now\<rparr>"
  let ?s2 = "?s1\<lparr>sessions := (sessions s)(sessionId \<mapsto> ?pushed)\<rparr>"
  let ?s3 = "manageSessionSize sessionId ?s2"
  from add have msg: "msg = ?msg"
    and s': "s' = memoryLog Debug (''Added message to session '' @ sessionId) ?s3"
    by (auto simp: addMessage_unfold Let_def)
  have old: "messages ?session = liveMessages s sessionId"
    by (simp add: liveMessages_def createNewSession_def split: option.splits)
  have cfg1: "memory_config ?s1 = memory_config s"
    by (simp add: memoryLog_def split: option.splits)
  have cfg: "memory_config ?s2 = memory_config s"
    by (simp add: cfg1)
  have before: "compactions ?s2 sessionId = compactions s sessionId"
    by (simp add: compactions_def memoryLog_def split: option.splits)
  have a: "sessions ?s2 sessionId = Some ?pushed"
    by simp
  have b: "session_id ?pushed = sessionId"
    using key by (simp add: createNewSession_def split: option.splits)
  have c: "int (length (messages ?pushed)) > maxMessagesPerSession (memory_config ?s2)"
    using over by (simp add: old cfg1)
  have d: "0 < summaryThreshold (memory_config ?s2)"
    using t by (simp add: cfg1)
  note compacted = manageSessionSize_compacts [OF a b c d]
  have all: "messages ?pushed = liveMessages s sessionId @ [msg]"
    by (simp add: old msg)
  have live: "liveMessages s' sessionId =
      drop (length (liveMessages s sessionId) + 1 - nat (summaryThreshold (memory_config s)))
        (liveMessages s sessionId @ [msg])"
    using compacted(1) by (simp add: s' memoryLog_def liveMessages_def all cfg1)
  have count: "compactions s' sessionId = compactions s sessionId + 1"
    using compacted(2) before by (simp add: s' memoryLog_def compactions_def)
  have size: "int (length (liveMessages s' sessionId)) = summaryThreshold (memory_config s)"
    using t le over by (simp add: live)
  have "\<exists>sm. sessionSummaries s' sessionId = Some sm \<and>
      message_count sm = length (liveMessages s sessionId) + 1 \<and>
      summary sm = createSimpleSummary
        (take (length (liveMessages s sessionId) + 1 - nat (summaryThreshold (memory_config s)))
           (liveMessages s sessionId @ [msg]))"
    using compacted(3) by (auto simp: s' memoryLog_def all cfg1)
  with count live size show ?thesis by blast
qed

lemma threeMessages_config: "memory_config threeMessages = exampleMemoryConfig"
  by (simp add: threeMessages_def addMessage_def Let_def manageSessionSize_def memoryLog_def
      newMemoryService_def createNewSession_def exampleMemoryConfig_def)

lemma threeMessages_session:
  "sessions threeMessages ''s1'' =
     Some \<lparr>session_id = ''s1'',
       messages =
         [\<lparr>message_id = ''m1'', role = User, message_content = ''first question'', timestamp = 1\<rparr>,
          \<lparr>message_id = ''m2'', role = Assistant, message_content = ''an answer'', timestamp = 2\<rparr>,
          \<lparr>message_id = ''m3'', role = User, message_content = ''third question'', timestamp = 3\<rparr>],
       session_created_at = 1, session_updated_at = 3\<rparr>"
  by (simp add: threeMessages_def addMessage_def Let_def manageSessionSize_def memoryLog_def
      newMemoryService_def createNewSession_def exampleMemoryConfig_def)

lemma fourMessages_eq:
  "addMessage ''s1'' Assistant ''another answer'' ''m4'' 4 threeMessages = (fourthMessage, fourMessages)"
  by (simp add: fourMessages_def fourthMessage_def addMessage_unfold Let_def)

lemma compaction_on_overflow_example:
  "map message_id (liveMessages threeMessages ''s1'') = [''m1'', ''m2'', ''m3''] \<and>
   maxMessagesPerSession (memory_config threeMessages) = 3 \<and>
   summaryThreshold (memory_config threeMessages) = 2 \<and>
   compactions fourMessages ''s1'' = compactions threeMessages ''s1'' + 1 \<and>
   map message_id (liveMessages fourMessages ''s1'') = [''m3'', ''m4''] \<and>
   sessionSummaries fourMessages ''s1'' \<noteq> None"
proof -
  have live: "liveMessages threeMessages ''s1'' =
      [\<lparr>message_id = ''m1'', role = User, message_content = ''first question'', timestamp = 1\<rparr>,
       \<lparr>message_id = ''m2'', role = Assistant, message_content = ''an answer'', timestamp = 2\<rparr>,
       \<lparr>message_id = ''m3'', role = User, message_content = ''third question'', timestamp = 3\<rparr>]"
    by (simp add: liveMessages_def threeMessages_session)
  have t: "0 < summaryThreshold (memory_config threeMessages)"
    and le: "summaryThreshold (memory_config threeMessages) \<le>
      maxMessagesPerSession (memory_config threeMessages)"
    and key: "\<forall>x. sessions threeMessages ''s1'' = Some x \<longrightarrow> session_id x = ''s1''"
    and over: "int (length (liveMessages threeMessages ''s1'')) + 1 >
      maxMessagesPerSession (memory_config threeMessages)"
    by (simp_all add: threeMessages_config exampleMemoryConfig_def threeMessages_session live)
  from compaction_on_overflow [OF t le key over fourMessages_eq]
  show ?thesis
    by (auto simp: live threeMessages_config exampleMemoryConfig_def fourthMessage_def)
qed

subsection \<open>A threshold of 0\<close>

lemma firstAdded_eq:
  "firstAdded =
     \<lparr>memory_config = smallMemoryConfig,
      sessions = [''s1'' \<mapsto> \<lparr>session_id = ''s1'',
        messages =
          [\<lparr>message_id = ''m1'', role = User, message_content = ''first question'',
            timestamp = 1\<rparr>],
        session_created_at = 1, session_updated_at = 1\<rparr>],
      sessionSummaries = Map.empty,
      memory_log = [(Info, ''Memory Service initialized''), (Debug, ''Created new session: s1''),
        (Debug, ''Added message to session s1'')]\<rparr>"
  by (simp add: firstAdded_def addMessage_def Let_def manageSessionSize_def memoryLog_def
      newMemoryService_def createNewSession_def smallMemoryConfig_def)

lemma empty_summary_slice: "slice xs 0 0 = []"
  by (simp add: slice_def relativeIndex_def)

lemma sliceFrom_zero: "sliceFrom xs 0 = xs"
  using sliceFrom_keeps_all [of 0 xs] by simp

lemma slice_Nil: "slice [] b e = []"
  by (simp add: slice_def Let_def)

lemma secondAdded_eq:
  "secondAdded =
     \<lparr>memory_config = smallMemoryConfig,
      sessions = [''s1'' \<mapsto> \<lparr>session_id = ''s1'',
        messages =
          [\<lparr>message_id = ''m1'', role = User, message_content = ''first question'',
            timestamp = 1\<rparr>,
           \<lparr>message_id = ''m2'', role = Assistant, message_content = ''an answer'',
            timestamp = 2\<rparr>],
        session_created_at = 1, session_updated_at = 2\<rparr>],
      sessionSummaries = [''s1'' \<mapsto> \<lparr>summary_session_id = ''s1'',
        summary = ''No previous conversation.'', message_count = 2, topics = [],
        last_message_at = 2\<rparr>],
      memory_log = [(Info, ''Memory Service initialized''), (Debug, ''Created new session: s1''),
        (Debug, ''Added message to session s1''), (Debug, ''Updated summary for session s1''),
        (Debug, ''Trimmed session s1''), (Debug, ''Added message to session s1'')]\<rparr>"
  by (simp add: secondAdded_def firstAdded_eq addMessage_def Let_def manageSessionSize_def
      memoryLog_def updateSessionSummary_def smallMemoryConfig_def empty_summary_slice
      createSimpleSummary_def extractTopics_def sliceFrom_zero slice_Nil numeral_2_eq_2)

lemma thirdAdded_live:
  "map message_id (liveMessages thirdAdded ''s1'') = [''m1'', ''m2'', ''m3''] \<and>
   compactions thirdAdded ''s1'' = 2"
  by (simp add: thirdAdded_def secondAdded_eq addMessage_def Let_def manageSessionSize_def
      memoryLog_def updateSessionSummary_def smallMemoryConfig_def empty_summary_slice
      createSimpleSummary_def extractTopics_def sliceFrom_zero slice_Nil liveMessages_def
      compactions_def)

text \<open>
  Claim C7 fails for a threshold of 0, which is what
  \<^verbatim>\<open>MemoryService.fromConfig\<close> computes for \<open>max_conversation_history = 1\<close>.
  The second message takes the session over the maximum of 1 and the session is
  compacted, once; but \<open>slice(0, -0)\<close> is empty and \<open>slice(-0)\<close> is the whole
  list, so that the summary is made of no message and both messages stay live: the
  session holds 2 messages, not 0, and more than the maximum. The third message
  compacts the session again, and all three messages stay.
\<close>

theorem compaction_keeps_everything:
  "maxMessagesPerSession smallMemoryConfig = 1 \<and> summaryThreshold smallMemoryConfig = 0 \<and>
   map message_id (liveMessages firstAdded ''s1'') = [''m1''] \<and>
   compactions firstAdded ''s1'' = 0 \<and>
   compactions secondAdded ''s1'' = 1 \<and>
   map message_id (liveMessages secondAdded ''s1'') = [''m1'', ''m2''] \<and>
   map_option summary (sessionSummaries secondAdded ''s1'') = Some ''No previous conversation.'' \<and>
   compactions thirdAdded ''s1'' = 2 \<and>
   map message_id (liveMessages thirdAdded ''s1'') = [''m1'', ''m2'', ''m3'']"
  by (simp add: thirdAdded_live)
    (simp add: firstAdded_eq secondAdded_eq liveMessages_def compactions_def smallMemoryConfig_def)

end
